theory Spec2Isabelle
  imports Complex_Main
begin

section \<open>Python values and exceptions\<close>

text \<open>
  The exceptions that the modelled code can raise. \<open>AssertionError\<close> carries the message
  of the failed \<^verbatim>\<open>assert\<close>; \<open>LibraryError\<close> stands for any exception raised inside the
  symbolic-math library (sympy), which is not part of the repository;
  \<open>ConfigurationError\<close> is the failure of dataset construction named by the specification.
\<close>

datatype py_error =
    AssertionError string
  | ValueError
  | IndexError
  | KeyError string
  | TypeError
  | UnboundLocalError
  | LibraryError string
  | ConfigurationError py_error

section \<open>Configuration\<close>

text \<open>
  \<^verbatim>\<open>IntermediateIntegrationConfig\<close>: the dataclass, field by field. Integers are Python's
  unbounded integers, the weights are floats that are modelled as exact rationals, and
  \<^verbatim>\<open>symbols\<close> and \<^verbatim>\<open>operators\<close> are sequences of strings (the default \<^verbatim>\<open>symbols = "x"\<close> is
  a string, which Python iterates as the one-element sequence of its characters).
\<close>

record IntermediateIntegrationConfig =
  problem_types :: "string list"
  problem_type_weights :: "rat list"
  seed :: "int option"
  size_c :: int
  linear_lower_bound :: int
  linear_upper_bound :: int
  min_linear_degree :: int
  max_linear_degree :: int
  outer_constant_min :: int
  outer_constant_max :: int
  min_poly_degree :: int
  max_poly_degree :: int
  symbols :: "string list"
  operators :: "string list"

definition default_problem_types :: "string list" where
  "default_problem_types =
     [''linear'', ''radical'', ''log_inverse_trig'', ''trigonometric'',
      ''polynomial_exp_trig'', ''exponential'', ''cyclic'', ''repeated_parts'']"

definition default_config :: IntermediateIntegrationConfig where
  "default_config =
     \<lparr> problem_types = default_problem_types,
       problem_type_weights = [1/8, 1/8, 1/8, 1/8, 1/8, 1/8, 1/8, 1/8],
       seed = None,
       size_c = 500,
       linear_lower_bound = 1,
       linear_upper_bound = 10,
       min_linear_degree = 2,
       max_linear_degree = 4,
       outer_constant_min = 1,
       outer_constant_max = 3,
       min_poly_degree = 1,
       max_poly_degree = 3,
       symbols = [''x''],
       operators = [''+'', ''-''] \<rparr>"

text \<open>
  \<^verbatim>\<open>validate\<close>: twelve assertions, checked in the order of the source; the first one that
  fails raises \<^verbatim>\<open>AssertionError\<close> with its message.
\<close>

definition validate :: "IntermediateIntegrationConfig \<Rightarrow> py_error + unit" where
  "validate c =
     (if length (problem_types c) \<noteq> length (problem_type_weights c)
        then Inl (AssertionError ''problem_types and problem_type_weights must have the same length'')
      else if \<not> size_c c > 0
        then Inl (AssertionError ''size must be positive'')
      else if \<not> linear_lower_bound c > 0
        then Inl (AssertionError ''linear_lower_bound must be positive'')
      else if \<not> linear_upper_bound c \<ge> linear_lower_bound c
        then Inl (AssertionError ''linear_upper_bound must be >= linear_lower_bound'')
      else if \<not> min_linear_degree c > 0
        then Inl (AssertionError ''min_linear_degree must be positive'')
      else if \<not> max_linear_degree c \<ge> min_linear_degree c
        then Inl (AssertionError ''max_linear_degree must be >= min_linear_degree'')
      else if \<not> outer_constant_min c > 0
        then Inl (AssertionError ''outer_constant_min must be positive'')
      else if \<not> outer_constant_max c \<ge> outer_constant_min c
        then Inl (AssertionError ''outer_constant_max must be >= outer_constant_min'')
      else if \<not> min_poly_degree c > 0
        then Inl (AssertionError ''min_poly_degree must be positive'')
      else if \<not> max_poly_degree c \<ge> min_poly_degree c
        then Inl (AssertionError ''max_poly_degree must be >= min_poly_degree'')
      else if \<not> list_all (\<lambda>op. op \<in> set [''+'', ''-'']) (operators c)
        then Inl (AssertionError ''invalid operator specified'')
      else if \<not> list_all (\<lambda>s. s \<in> set [''x'', ''X'']) (symbols c)
        then Inl (AssertionError ''invalid symbol specified'')
      else Inr ())"

text \<open>The constraints that the assertions of \<^verbatim>\<open>validate\<close> state, as one predicate.\<close>

definition constraints_hold :: "IntermediateIntegrationConfig \<Rightarrow> bool" where
  "constraints_hold c =
     (length (problem_types c) = length (problem_type_weights c)
      \<and> 0 < size_c c
      \<and> 0 < linear_lower_bound c \<and> linear_lower_bound c \<le> linear_upper_bound c
      \<and> 0 < min_linear_degree c \<and> min_linear_degree c \<le> max_linear_degree c
      \<and> 0 < outer_constant_min c \<and> outer_constant_min c \<le> outer_constant_max c
      \<and> 0 < min_poly_degree c \<and> min_poly_degree c \<le> max_poly_degree c
      \<and> list_all (\<lambda>op. op = ''+'' \<or> op = ''-'') (operators c)
      \<and> list_all (\<lambda>s. s = ''x'' \<or> s = ''X'') (symbols c))"

definition is_assertion_error :: "py_error + 'a \<Rightarrow> bool" where
  "is_assertion_error r = (case r of Inl (AssertionError m) \<Rightarrow> True | _ \<Rightarrow> False)"

section \<open>Symbolic expressions and the symbolic-math library\<close>

text \<open>
  The sympy objects that the generator builds, as the tree of the constructor calls and
  operators of the source: \<^verbatim>\<open>sympy.Symbol(s)\<close>, a Python integer in an arithmetic
  operation with an expression (\<open>Integer\<close>), \<^verbatim>\<open>+\<close>, \<^verbatim>\<open>-\<close>, \<^verbatim>\<open>*\<close>, \<^verbatim>\<open>**\<close>, the
  functions \<^verbatim>\<open>exp\<close>, \<^verbatim>\<open>sin\<close>, \<^verbatim>\<open>cos\<close>, \<^verbatim>\<open>sqrt\<close>, \<^verbatim>\<open>ln\<close>, \<^verbatim>\<open>asin\<close>, \<^verbatim>\<open>atan\<close>, and
  \<^verbatim>\<open>sympy.Function(name)(arg)\<close> (\<open>AppliedUndef\<close>). \<open>Other\<close> is any further object
  that the library may return (an unevaluated integral, a piecewise expression, ...).
\<close>

datatype expr =
    Symbol string
  | Integer int
  | Add expr expr
  | Sub expr expr
  | Mul expr expr
  | Pow expr expr
  | Exp expr
  | Sin expr
  | Cos expr
  | Sqrt expr
  | Ln expr
  | Asin expr
  | Atan expr
  | AppliedUndef string expr
  | Other string "expr list"

text \<open>Python values, as far as item records and candidate answers need them.\<close>

datatype pyval =
    PNone
  | PStr string
  | PInt int
  | PFloat rat
  | PExpr expr
  | PList "pyval list"
  | PDict "(string \<times> pyval) list"

text \<open>
  sympy is an external library: the functions of it that the source calls are parameters
  of the model. A call either returns or raises (\<open>Inl\<close>, with the exception's text).
  \<open>parse_expr\<close> takes the text to parse (any Python value: the source passes what the
  metadata holds) and the \<^verbatim>\<open>local_dict\<close>.
\<close>

record sympy =
  integrate :: "expr \<Rightarrow> expr \<Rightarrow> string + expr"
  str_expr :: "expr \<Rightarrow> string"
  parse_expr :: "pyval \<Rightarrow> (string \<times> expr) list \<Rightarrow> string + expr"
  diff :: "expr \<Rightarrow> expr \<Rightarrow> string + expr"
  simplify :: "expr \<Rightarrow> string + expr"

definition lib_call :: "string + 'a \<Rightarrow> py_error + 'a" where
  "lib_call r = (case r of Inl m \<Rightarrow> Inl (LibraryError m) | Inr v \<Rightarrow> Inr v)"

section \<open>The random source\<close>

text \<open>
  \<^verbatim>\<open>random.Random(s)\<close> is a deterministic generator: its outputs are a function of the
  seed. The model is a stream of raw draws with a read position; the function from seeds
  to streams is a parameter (\<open>mk_rng\<close> below), so that every theorem holds for every
  generator. Each method of the standard library consumes one raw draw and maps it onto
  its range, so every value that a call can return is the image of some raw draw; the
  checks and the exceptions are those of CPython's \<^verbatim>\<open>random\<close> module. How many bits of
  the generator a call really consumes, and the rounding of floating-point arithmetic, are
  not modelled.
\<close>

datatype rng = Rng (raw: "nat \<Rightarrow> nat") (pos: nat)

definition next_raw :: "rng \<Rightarrow> nat \<times> rng" where
  "next_raw r = (raw r (pos r), Rng (raw r) (Suc (pos r)))"

type_synonym 'a gen = "rng \<Rightarrow> py_error + ('a \<times> rng)"

definition return_gen :: "'a \<Rightarrow> 'a gen" where
  "return_gen v r = Inr (v, r)"

definition raise_gen :: "py_error \<Rightarrow> 'a gen" where
  "raise_gen e r = Inl e"

definition bind_gen :: "'a gen \<Rightarrow> ('a \<Rightarrow> 'b gen) \<Rightarrow> 'b gen" where
  "bind_gen m f r = (case m r of Inl e \<Rightarrow> Inl e | Inr (v, r') \<Rightarrow> f v r')"

text \<open>\<^verbatim>\<open>rng.randint(a, b)\<close>: \<^verbatim>\<open>ValueError\<close> on an empty range, else a value of \<open>[a, b]\<close>.\<close>

definition randint :: "int \<Rightarrow> int \<Rightarrow> int gen" where
  "randint a b r =
     (if b < a then Inl ValueError
      else case next_raw r of (k, r') \<Rightarrow> Inr (a + int (k mod nat (b - a + 1)), r'))"

text \<open>\<^verbatim>\<open>rng.choice(seq)\<close>: \<^verbatim>\<open>IndexError\<close> on an empty sequence, else one of its elements.\<close>

definition choice :: "'a list \<Rightarrow> 'a gen" where
  "choice xs r =
     (if xs = [] then Inl IndexError
      else case next_raw r of (k, r') \<Rightarrow> Inr (xs ! (k mod length xs), r'))"

text \<open>\<^verbatim>\<open>rng.random()\<close>: a multiple of \<open>2\<^sup>-\<^sup>5\<^sup>3\<close> in \<open>[0, 1)\<close>.\<close>

definition random_py :: "rat gen" where
  "random_py r = (case next_raw r of (k, r') \<Rightarrow> Inr (of_nat (k mod 2 ^ 53) / 2 ^ 53, r'))"

text \<open>\<^verbatim>\<open>itertools.accumulate(weights)\<close>: the running sums.\<close>

fun accumulate_from :: "rat \<Rightarrow> rat list \<Rightarrow> rat list" where
  "accumulate_from s [] = []"
| "accumulate_from s (w # ws) = (s + w) # accumulate_from (s + w) ws"

definition accumulate :: "rat list \<Rightarrow> rat list" where
  "accumulate ws = accumulate_from 0 ws"

text \<open>\<^verbatim>\<open>bisect.bisect(a, x, lo, hi)\<close> (\<^verbatim>\<open>bisect_right\<close>): the binary search of the library.\<close>

function bisect :: "rat list \<Rightarrow> rat \<Rightarrow> nat \<Rightarrow> nat \<Rightarrow> nat" where
  "bisect a x lo hi =
     (if lo < hi
      then (if x < a ! ((lo + hi) div 2)
            then bisect a x lo ((lo + hi) div 2)
            else bisect a x ((lo + hi) div 2 + 1) hi)
      else lo)"
  by pat_completeness auto
termination
  by (relation "measure (\<lambda>(a, x, lo, hi). hi - lo)") auto

declare bisect.simps [simp del]

text \<open>
  \<^verbatim>\<open>rng.choices(population, weights=weights, k=1)[0]\<close>: the length check, the read of
  \<^verbatim>\<open>cum_weights[-1]\<close> (\<^verbatim>\<open>IndexError\<close> on an empty list), the check of the total, and the
  bisection of \<^verbatim>\<open>random() * total\<close> between \<open>0\<close> and \<open>n - 1\<close>.
\<close>

definition choices1 :: "'a list \<Rightarrow> rat list \<Rightarrow> 'a gen" where
  "choices1 population weights r =
     (let cum_weights = accumulate weights; n = length population in
      if length cum_weights \<noteq> n then Inl ValueError
      else if cum_weights = [] then Inl IndexError
      else if last cum_weights \<le> 0 then Inl ValueError
      else case random_py r of
             Inl e \<Rightarrow> Inl e
           | Inr (u, r') \<Rightarrow>
               Inr (population ! bisect cum_weights (u * last cum_weights) 0 (n - 1), r'))"

section \<open>The dataset\<close>

text \<open>
  The fields that \<^verbatim>\<open>IntermediateIntegrationDataset.__init__\<close> sets. A prompt template is
  kept as the text before and the text after its one placeholder \<^verbatim>\<open>{integrand}\<close>.
\<close>

record IntermediateIntegrationDataset =
  self_config :: IntermediateIntegrationConfig
  self_seed :: int
  self_size :: int
  prompt_template :: "(string \<times> string) list"
  added_instruction :: string

text \<open>
  Modelled from the spec: \<^verbatim>\<open>ProceduralDataset.__init__\<close> (module \<^verbatim>\<open>factory\<close>, not among the
  sources). The specification: construction validates the configuration and fails with
  a ConfigurationError if \<^verbatim>\<open>validate()\<close> raises; the base seed falls back to a
  process-derived random seed if unset. \<open>entropy\<close> is that process-derived seed.
\<close>

definition ProceduralDataset_init ::
  "IntermediateIntegrationConfig \<Rightarrow> int option \<Rightarrow> int \<Rightarrow> int
     \<Rightarrow> py_error + (IntermediateIntegrationConfig \<times> int \<times> int)" where
  "ProceduralDataset_init config sd sz entropy =
     (case validate config of
        Inl e \<Rightarrow> Inl (ConfigurationError e)
      | Inr u \<Rightarrow> Inr (config, (case sd of Some s \<Rightarrow> s | None \<Rightarrow> entropy), sz))"

definition integral_sign :: string where
  "integral_sign = [CHR 0xE2, CHR 0x88, CHR 0xAB]"

definition prompt_templates :: "(string \<times> string) list" where
  "prompt_templates =
     [(''Find the indefinite integral: '' @ integral_sign @ '' '', '' dx''),
      (''Calculate the antiderivative: '' @ integral_sign @ '' '', '' dx''),
      (''Evaluate the indefinite integral: '' @ integral_sign @ '' '', '' dx'')]"

definition added_instruction_text :: string where
  "added_instruction_text =
     [CHR 10] @ ''When performing calculations, please follow these guidelines:'' @
     [CHR 10] @ ''Use same variable symbols as given in the question'' @
     [CHR 10] @ ''1. Use ** instead of ^ to represent exponents. For example, write 7*X**2 instead of 7*X^2.'' @
     [CHR 10] @ ''2. Always include the * symbol for all multiplication operations in your reasoning steps. For example, write `-3*X**3*sin(X) - 9*X**2*cos(X) + 18*X*sin(X) + 18*cos(X) + C` instead of `-3x3sin(x) - 9x2cos(x) + 18xsin(x) + 18cos(x) + C`.'' @
     [CHR 10] @ ''3. Use `exp(x)` or `E**(x)` for the exponential function (i.e. use capital E for Euler's number).'' @
     [CHR 10]"

text \<open>\<^verbatim>\<open>IntermediateIntegrationDataset.__init__(config)\<close>.\<close>

definition dataset_init ::
  "IntermediateIntegrationConfig \<Rightarrow> int \<Rightarrow> py_error + IntermediateIntegrationDataset" where
  "dataset_init config entropy =
     (case ProceduralDataset_init config (seed config) (size_c config) entropy of
        Inl e \<Rightarrow> Inl e
      | Inr (c, s, n) \<Rightarrow>
          Inr \<lparr> self_config = c, self_seed = s, self_size = n,
                prompt_template = prompt_templates,
                added_instruction = added_instruction_text \<rparr>)"

subsection \<open>The generators\<close>

text \<open>\<^verbatim>\<open>_get_outer_constant\<close>.\<close>

definition get_outer_constant :: "IntermediateIntegrationConfig \<Rightarrow> int gen" where
  "get_outer_constant c =
     bind_gen (randint (outer_constant_min c) (outer_constant_max c)) (\<lambda>v.
     bind_gen (choice (operators c)) (\<lambda>op.
     return_gen (if op = ''-'' then - v else v)))"

text \<open>
  The expression
  \<^verbatim>\<open>(-1 if rng.choice(operators) == "-" else 1) * rng.randint(linear_lower_bound, linear_upper_bound)\<close>,
  which the source writes out at each of its uses.
\<close>

definition signed_coefficient :: "IntermediateIntegrationConfig \<Rightarrow> int gen" where
  "signed_coefficient c =
     bind_gen (choice (operators c)) (\<lambda>op.
     bind_gen (randint (linear_lower_bound c) (linear_upper_bound c)) (\<lambda>m.
     return_gen ((if op = ''-'' then - 1 else 1) * m)))"

text \<open>The list comprehension of \<^verbatim>\<open>_generate_exponential_substitution\<close>.\<close>

fun signed_terms :: "IntermediateIntegrationConfig \<Rightarrow> nat \<Rightarrow> int list gen" where
  "signed_terms c 0 = return_gen []"
| "signed_terms c (Suc n) =
     bind_gen (signed_coefficient c) (\<lambda>t.
     bind_gen (signed_terms c n) (\<lambda>ts.
     return_gen (t # ts)))"

definition generate_linear_substitution_problem ::
  "IntermediateIntegrationConfig \<Rightarrow> expr \<Rightarrow> expr gen" where
  "generate_linear_substitution_problem c x =
     bind_gen (randint (linear_lower_bound c) (linear_upper_bound c)) (\<lambda>a.
     bind_gen (randint (linear_lower_bound c) (linear_upper_bound c)) (\<lambda>b.
     bind_gen (choice (operators c)) (\<lambda>op.
     bind_gen (randint (min_linear_degree c) (max_linear_degree c)) (\<lambda>degree.
     bind_gen (get_outer_constant c) (\<lambda>k.
     return_gen
       (Mul (Integer k)
          (Pow (Add (Mul (Integer a) x) (Integer (if op = ''+'' then b else - b)))
               (Integer degree))))))))"

definition generate_exponential_substitution ::
  "IntermediateIntegrationConfig \<Rightarrow> expr \<Rightarrow> expr gen" where
  "generate_exponential_substitution c x =
     bind_gen (choice [''linear'', ''quadratic'']) (\<lambda>exponent_type.
     bind_gen (signed_terms c (if exponent_type = ''linear'' then 2 else 3)) (\<lambda>terms.
     bind_gen (get_outer_constant c) (\<lambda>k.
     return_gen
       (if exponent_type = ''linear''
        then Mul (Integer (k * terms ! 0))
                 (Exp (Add (Mul (Integer (terms ! 0)) x) (Integer (terms ! 1))))
        else Mul (Mul (Integer k) (Add (Mul (Integer (2 * terms ! 0)) x) (Integer (terms ! 1))))
                 (Exp (Add (Add (Mul (Integer (terms ! 0)) (Pow x (Integer 2)))
                                (Mul (Integer (terms ! 1)) x))
                           (Integer (terms ! 2))))))))"

definition generate_radical_substitution ::
  "IntermediateIntegrationConfig \<Rightarrow> expr \<Rightarrow> expr gen" where
  "generate_radical_substitution c x =
     bind_gen (signed_coefficient c) (\<lambda>a.
     bind_gen (signed_coefficient c) (\<lambda>b.
     bind_gen (get_outer_constant c) (\<lambda>k.
     return_gen
       (Mul (Integer k) (Mul (Integer a) (Sqrt (Add (Mul (Integer a) x) (Integer b))))))))"

definition generate_trigonometric_substitution ::
  "IntermediateIntegrationConfig \<Rightarrow> expr \<Rightarrow> expr gen" where
  "generate_trigonometric_substitution c x =
     bind_gen (choice [''sin'', ''cos'']) (\<lambda>trig_func.
     bind_gen (signed_coefficient c) (\<lambda>a.
     bind_gen (signed_coefficient c) (\<lambda>b.
     bind_gen (randint 1 4) (\<lambda>power.
     bind_gen (get_outer_constant c) (\<lambda>k.
     return_gen
       (let inner = Add (Mul (Integer a) x) (Integer b) in
        Mul (Integer k)
          (if trig_func = ''sin''
           then Mul (Mul (Integer a) (Cos inner)) (Pow (Sin inner) (Integer power))
           else Mul (Mul (Integer (- a)) (Sin inner)) (Pow (Cos inner) (Integer power)))))))))"

definition generate_polynomial_exp_trig ::
  "IntermediateIntegrationConfig \<Rightarrow> expr \<Rightarrow> expr gen" where
  "generate_polynomial_exp_trig c x =
     bind_gen (randint (min_poly_degree c) (max_poly_degree c)) (\<lambda>poly_degree.
     bind_gen (choice [''exp'', ''sin'', ''cos'']) (\<lambda>func_type.
     bind_gen (if func_type = ''exp'' then return_gen (Exp x)
               else bind_gen (randint 1 3) (\<lambda>coefficient.
                    return_gen (AppliedUndef func_type (Mul (Integer coefficient) x))))
       (\<lambda>transcendental.
     bind_gen (get_outer_constant c) (\<lambda>k.
     return_gen (Mul (Integer k) (Mul (Pow x (Integer poly_degree)) transcendental))))))"

definition generate_log_inverse_trig ::
  "IntermediateIntegrationConfig \<Rightarrow> expr \<Rightarrow> expr gen" where
  "generate_log_inverse_trig c x =
     bind_gen (choice [''log'', ''asin'', ''atan'']) (\<lambda>func_type.
     bind_gen (randint 1 3) (\<lambda>coefficient.
     bind_gen (if func_type = ''log''
               then bind_gen random_py (\<lambda>u.
                    bind_gen (if u < 8 / 10 then return_gen x
                              else bind_gen (randint 2 3) (\<lambda>e. return_gen (Pow x (Integer e))))
                      (\<lambda>log_arg.
                    return_gen (Ln log_arg)))
               else if func_type = ''asin'' then return_gen (Asin (Mul (Integer coefficient) x))
               else if func_type = ''atan'' then return_gen (Atan (Mul (Integer coefficient) x))
               else raise_gen UnboundLocalError)
       (\<lambda>func.
     bind_gen (get_outer_constant c) (\<lambda>k.
     return_gen (Mul (Integer k) func)))))"

definition generate_cyclic_integral ::
  "IntermediateIntegrationConfig \<Rightarrow> expr \<Rightarrow> expr gen" where
  "generate_cyclic_integral c x =
     bind_gen (choice [(Exp x, Sin x), (Exp x, Cos x), (Sin x, Cos x)]) (\<lambda>func_pair.
     bind_gen (get_outer_constant c) (\<lambda>k.
     return_gen (Mul (Integer k) (Mul (fst func_pair) (snd func_pair)))))"

definition generate_repeated_parts ::
  "IntermediateIntegrationConfig \<Rightarrow> expr \<Rightarrow> expr gen" where
  "generate_repeated_parts c x =
     bind_gen (randint 3 (max_poly_degree c)) (\<lambda>poly_degree.
     bind_gen (choice [Sin x, Cos x, Exp x]) (\<lambda>transcendental.
     bind_gen (get_outer_constant c) (\<lambda>k.
     return_gen (Mul (Integer k) (Mul (Pow x (Integer poly_degree)) transcendental)))))"

subsection \<open>\<^verbatim>\<open>__getitem__\<close>\<close>

text \<open>
  The \<^verbatim>\<open>if\<close>/\<^verbatim>\<open>elif\<close> chain of \<^verbatim>\<open>__getitem__\<close>, in the order of the source. The chain has
  no \<^verbatim>\<open>else\<close>: for any other problem type the variable \<^verbatim>\<open>integrand\<close> stays unassigned and
  the next statement, which reads it, raises \<^verbatim>\<open>UnboundLocalError\<close>.
\<close>

definition dispatch :: "IntermediateIntegrationConfig \<Rightarrow> string \<Rightarrow> expr \<Rightarrow> expr gen" where
  "dispatch c problem_type x =
     (if problem_type = ''linear'' then generate_linear_substitution_problem c x
      else if problem_type = ''trigonometric'' then generate_trigonometric_substitution c x
      else if problem_type = ''exponential'' then generate_exponential_substitution c x
      else if problem_type = ''radical'' then generate_radical_substitution c x
      else if problem_type = ''log_inverse_trig'' then generate_log_inverse_trig c x
      else if problem_type = ''polynomial_exp_trig'' then generate_polynomial_exp_trig c x
      else if problem_type = ''cyclic'' then generate_cyclic_integral c x
      else if problem_type = ''repeated_parts'' then generate_repeated_parts c x
      else raise_gen UnboundLocalError)"

definition lift_lib :: "string + 'a \<Rightarrow> 'a gen" where
  "lift_lib v r = (case lib_call v of Inl e \<Rightarrow> Inl e | Inr a \<Rightarrow> Inr (a, r))"

text \<open>The first part of \<^verbatim>\<open>__getitem__\<close>: the problem type, the symbol and the integrand.\<close>

definition draw_integrand ::
  "IntermediateIntegrationConfig \<Rightarrow> (string \<times> expr \<times> expr) gen" where
  "draw_integrand c =
     bind_gen (choices1 (problem_types c) (problem_type_weights c)) (\<lambda>problem_type.
     bind_gen (choice (symbols c)) (\<lambda>s.
     bind_gen (dispatch c problem_type (Symbol s)) (\<lambda>integrand.
     return_gen (problem_type, Symbol s, integrand))))"

text \<open>
  The statements of \<^verbatim>\<open>__getitem__\<close> after the construction of \<^verbatim>\<open>rng\<close>, as a computation
  on the random source. \<open>sp\<close> is sympy.
\<close>

definition getitem_body :: "sympy \<Rightarrow> IntermediateIntegrationDataset \<Rightarrow> pyval gen" where
  "getitem_body sp self =
     bind_gen (draw_integrand (self_config self)) (\<lambda>(problem_type, x, integrand).
     bind_gen (lift_lib (integrate sp integrand x)) (\<lambda>answer.
     bind_gen (choice (prompt_template self)) (\<lambda>t.
     return_gen
       (PDict
         [(''question'',
             PStr (fst t @ str_expr sp integrand @ snd t @ added_instruction self)),
          (''answer'', PStr (str_expr sp answer @ '' + C'')),
          (''metadata'',
             PDict
               [(''integrand'', PStr (str_expr sp integrand)),
                (''problem_type'', PStr problem_type),
                (''variable'', PStr (str_expr sp x)),
                (''expected_answer_expression'', PExpr answer),
                (''difficulty'',
                   PDict
                     [(''problem_type_weights'',
                         PList (map PFloat (problem_type_weights (self_config self))))])])]))))"

text \<open>
  \<^verbatim>\<open>__getitem__(index)\<close>. \<open>mk_rng\<close> is \<^verbatim>\<open>random.Random\<close>: the random source is made from
  \<^verbatim>\<open>self.seed + index\<close>. The result is the item record, a dictionary, or the exception
  that the call raises.
\<close>

definition getitem ::
  "(int \<Rightarrow> rng) \<Rightarrow> sympy \<Rightarrow> IntermediateIntegrationDataset \<Rightarrow> int \<Rightarrow> py_error + pyval" where
  "getitem mk_rng sp self index =
     (case getitem_body sp self (mk_rng (self_seed self + index)) of
        Inl e \<Rightarrow> Inl e
      | Inr (item, r) \<Rightarrow> Inr item)"

subsection \<open>\<^verbatim>\<open>score_answer\<close>\<close>

text \<open>\<^verbatim>\<open>d[k]\<close> for a string key: only a dictionary that has the key returns.\<close>

definition subscript :: "pyval \<Rightarrow> string \<Rightarrow> py_error + pyval" where
  "subscript d k =
     (case d of
        PDict kvs \<Rightarrow> (case map_of kvs k of None \<Rightarrow> Inl (KeyError k) | Some v \<Rightarrow> Inr v)
      | _ \<Rightarrow> Inl TypeError)"

text \<open>\<^verbatim>\<open>sympy.Symbol(var)\<close>: the name must be a string.\<close>

definition Symbol_of :: "pyval \<Rightarrow> py_error + (string \<times> expr)" where
  "Symbol_of v = (case v of PStr s \<Rightarrow> Inr (s, Symbol s) | _ \<Rightarrow> Inl TypeError)"

definition bind_exc :: "py_error + 'a \<Rightarrow> ('a \<Rightarrow> py_error + 'b) \<Rightarrow> py_error + 'b" where
  "bind_exc m f = (case m of Inl e \<Rightarrow> Inl e | Inr v \<Rightarrow> f v)"

text \<open>The body of the \<^verbatim>\<open>try\<close> block: the reward it assigns, or the exception it raises.\<close>

definition score_try :: "sympy \<Rightarrow> pyval \<Rightarrow> pyval \<Rightarrow> py_error + rat" where
  "score_try sp answer metadata =
     bind_exc (subscript metadata ''variable'') (\<lambda>var.
     bind_exc (Symbol_of var) (\<lambda>(v, x).
     bind_exc (lib_call (parse_expr sp answer [(v, x), (''C'', Symbol ''C'')])) (\<lambda>user_expr.
     bind_exc (lib_call (diff sp user_expr x)) (\<lambda>derivative.
     bind_exc (subscript metadata ''integrand'') (\<lambda>integrand_text.
     bind_exc (lib_call (parse_expr sp integrand_text [(v, x)])) (\<lambda>integrand.
     bind_exc (lib_call (simplify sp (Sub derivative integrand))) (\<lambda>z.
     Inr (if z = Integer 0 then 1 else 0))))))))"

text \<open>
  \<^verbatim>\<open>score_answer(answer, entry)\<close>. The read of \<^verbatim>\<open>entry["metadata"]\<close> stands before the
  \<^verbatim>\<open>try\<close>, so its exception is raised to the caller; the bare \<^verbatim>\<open>except\<close> turns every
  exception of the block into the reward \<open>0.0\<close>.
\<close>

definition score_answer :: "sympy \<Rightarrow> pyval \<Rightarrow> pyval \<Rightarrow> py_error + rat" where
  "score_answer sp answer entry =
     (case subscript entry ''metadata'' of
        Inl e \<Rightarrow> Inl e
      | Inr metadata \<Rightarrow>
          (case answer of
             PStr a \<Rightarrow> (case score_try sp answer metadata of Inl e \<Rightarrow> Inr 0 | Inr reward \<Rightarrow> Inr reward)
           | _ \<Rightarrow> Inr 0))"

text \<open>
  An item record, as the specification defines it: a mapping with the required keys
  \<^verbatim>\<open>question\<close>, \<^verbatim>\<open>answer\<close> and \<^verbatim>\<open>metadata\<close>.
\<close>

definition is_item_record :: "pyval \<Rightarrow> bool" where
  "is_item_record entry =
     (case entry of
        PDict kvs \<Rightarrow> map_of kvs ''question'' \<noteq> None \<and> map_of kvs ''answer'' \<noteq> None
                     \<and> map_of kvs ''metadata'' \<noteq> None
      | _ \<Rightarrow> False)"

text \<open>
  Derivative-equivalence of a candidate answer with the stored integrand: every step of
  the check returns, and the difference simplifies to zero.
\<close>

definition derivative_equivalent :: "sympy \<Rightarrow> string \<Rightarrow> pyval \<Rightarrow> bool" where
  "derivative_equivalent sp a metadata =
     (\<exists>v user_expr derivative integrand_text integrand.
        subscript metadata ''variable'' = Inr (PStr v)
      \<and> parse_expr sp (PStr a) [(v, Symbol v), (''C'', Symbol ''C'')] = Inr user_expr
      \<and> diff sp user_expr (Symbol v) = Inr derivative
      \<and> subscript metadata ''integrand'' = Inr integrand_text
      \<and> parse_expr sp integrand_text [(v, Symbol v)] = Inr integrand
      \<and> simplify sp (Sub derivative integrand) = Inr (Integer 0))"

section \<open>The curriculum\<close>

text \<open>
  \<^verbatim>\<open>ScalarAttributeDefinition\<close>, with the keyword arguments that the source passes, and the
  state of a curriculum: its attributes and the current level index of each.
\<close>

record ScalarAttributeDefinition =
  attr_name :: string
  field_name :: string
  levels :: "rat list list"
  description :: string

record Curriculum =
  curriculum_name :: string
  attributes :: "ScalarAttributeDefinition list"
  current_levels :: "(string \<times> int) list"

text \<open>The attribute that \<^verbatim>\<open>IntermediateIntegrationCurriculum.__init__\<close> defines.\<close>

definition problem_type_weights_levels :: "rat list list" where
  "problem_type_weights_levels =
     [[1, 0, 0, 0, 0, 0, 0, 0],
      [0, 1, 0, 0, 0, 0, 0, 0],
      [0, 0, 1, 0, 0, 0, 0, 0],
      [0, 0, 0, 1, 0, 0, 0, 0],
      [0, 0, 0, 0, 1, 0, 0, 0],
      [0, 0, 0, 0, 0, 1, 0, 0],
      [0, 0, 0, 0, 0, 0, 1, 0],
      [0, 0, 0, 0, 0, 0, 0, 1]]"

definition problem_type_weights_attr :: ScalarAttributeDefinition where
  "problem_type_weights_attr =
     \<lparr> attr_name = ''problem_type_weights'',
       field_name = ''problem_type_weights'',
       levels = problem_type_weights_levels,
       description = ''The weights of the problem types'' \<rparr>"

text \<open>
  Modelled from the spec: \<^verbatim>\<open>BaseCurriculum\<close> (module \<^verbatim>\<open>coaching\<close>, not among the sources).
  The specification: a curriculum declares its attribute definitions once at
  construction; level index 0 is the easiest level, and it is the level of the initial
  state here.
\<close>

definition IntermediateIntegrationCurriculum :: Curriculum where
  "IntermediateIntegrationCurriculum =
     \<lparr> curriculum_name = ''IntermediateIntegrationCurriculum'',
       attributes = [problem_type_weights_attr],
       current_levels = [(''problem_type_weights'', 0)] \<rparr>"

text \<open>
  Modelled from the spec: \<^verbatim>\<open>get_attr_level(name)\<close> returns the current level index. The
  specification does not say what a name without a definition does; the model returns
  \<open>None\<close> there.
\<close>

definition get_attribute :: "Curriculum \<Rightarrow> string \<Rightarrow> ScalarAttributeDefinition option" where
  "get_attribute c n = find (\<lambda>a. attr_name a = n) (attributes c)"

definition get_attr_level :: "Curriculum \<Rightarrow> string \<Rightarrow> int option" where
  "get_attr_level c n =
     (case get_attribute c n of None \<Rightarrow> None | Some a \<Rightarrow> map_of (current_levels c) n)"

definition set_attr_level :: "Curriculum \<Rightarrow> string \<Rightarrow> int \<Rightarrow> Curriculum" where
  "set_attr_level c n l =
     c\<lparr> current_levels := map (\<lambda>(k, v). if k = n then (k, l) else (k, v)) (current_levels c) \<rparr>"

text \<open>
  Modelled from the spec: \<^verbatim>\<open>increment_attr_level(name)\<close> and \<^verbatim>\<open>decrement_attr_level(name)\<close>
  move the attribute's current level index by \<open>\<plusminus>1\<close>, clamped at the valid range
  \<open>[0, num_levels - 1]\<close>; moving past either end is a no-op, not an error.
\<close>

definition clamp_level :: "ScalarAttributeDefinition \<Rightarrow> int \<Rightarrow> int" where
  "clamp_level a l = max 0 (min (int (length (levels a)) - 1) l)"

definition step_attr_level :: "int \<Rightarrow> Curriculum \<Rightarrow> string \<Rightarrow> Curriculum option" where
  "step_attr_level d c n =
     (case get_attribute c n of
        None \<Rightarrow> None
      | Some a \<Rightarrow>
          (case map_of (current_levels c) n of
             None \<Rightarrow> None
           | Some l \<Rightarrow> Some (set_attr_level c n (clamp_level a (l + d)))))"

definition increment_attr_level :: "Curriculum \<Rightarrow> string \<Rightarrow> Curriculum option" where
  "increment_attr_level c n = step_attr_level 1 c n"

definition decrement_attr_level :: "Curriculum \<Rightarrow> string \<Rightarrow> Curriculum option" where
  "decrement_attr_level c n = step_attr_level (- 1) c n"

text \<open>\<open>k\<close> calls of \<^verbatim>\<open>increment_attr_level(name)\<close> in a row.\<close>

fun increment_times :: "nat \<Rightarrow> Curriculum \<Rightarrow> string \<Rightarrow> Curriculum option" where
  "increment_times 0 c n = Some c"
| "increment_times (Suc k) c n =
     (case increment_attr_level c n of None \<Rightarrow> None | Some c' \<Rightarrow> increment_times k c' n)"

text \<open>
  Modelled from the spec: materialisation builds a configuration by taking the
  generator's default configuration and overriding each attribute-controlled field with
  the value at its current level. A level index outside the list of levels has no value
  (\<open>None\<close>). The attribute of this curriculum controls the field
  \<^verbatim>\<open>problem_type_weights\<close>.
\<close>

definition set_field ::
  "string \<Rightarrow> rat list \<Rightarrow> IntermediateIntegrationConfig \<Rightarrow> IntermediateIntegrationConfig" where
  "set_field f v cfg = (if f = ''problem_type_weights'' then cfg\<lparr>problem_type_weights := v\<rparr> else cfg)"

fun apply_attributes ::
  "Curriculum \<Rightarrow> ScalarAttributeDefinition list \<Rightarrow> IntermediateIntegrationConfig
     \<Rightarrow> IntermediateIntegrationConfig option" where
  "apply_attributes c [] cfg = Some cfg"
| "apply_attributes c (a # as) cfg =
     (case map_of (current_levels c) (attr_name a) of
        None \<Rightarrow> None
      | Some l \<Rightarrow>
          if 0 \<le> l \<and> l < int (length (levels a))
          then apply_attributes c as (set_field (field_name a) (levels a ! nat l) cfg)
          else None)"

definition generate_configuration :: "Curriculum \<Rightarrow> IntermediateIntegrationConfig option" where
  "generate_configuration c = apply_attributes c (attributes c) default_config"

text \<open>
  The states that a sequence of increments and decrements of defined attributes reaches
  from the initial state.
\<close>

inductive reachable :: "Curriculum \<Rightarrow> bool" where
  reachable_init: "reachable IntermediateIntegrationCurriculum"
| reachable_increment:
    "reachable c \<Longrightarrow> increment_attr_level c n = Some c' \<Longrightarrow> reachable c'"
| reachable_decrement:
    "reachable c \<Longrightarrow> decrement_attr_level c n = Some c' \<Longrightarrow> reachable c'"

section \<open>A concrete instance of the parameters\<close>

text \<open>
  The theorems below hold for every random source and every symbolic-math library. To
  evaluate the model on concrete inputs, this section fixes one of each: a congruential
  generator in the role of \<^verbatim>\<open>random.Random\<close>, and a small engine in the role of sympy
  that prints expressions in infix form, leaves integrals unevaluated (as sympy does with
  an integral it cannot solve), reads back the texts of a fixed table of expressions,
  differentiates sums, constant multiples and unevaluated integrals, and simplifies by
  removing zero summands and equal differences.
\<close>

definition example_rng :: "int \<Rightarrow> rng" where
  "example_rng s =
     Rng (\<lambda>n. nat \<bar>s * 6364136223846793005 + int n * 1442695040888963407 + 1013904223\<bar>) 0"

function show_nat :: "nat \<Rightarrow> string" where
  "show_nat n =
     (if n < 10 then [''0123456789'' ! n]
      else show_nat (n div 10) @ [''0123456789'' ! (n mod 10)])"
  by pat_completeness auto
termination
  by (relation "measure id") auto

declare show_nat.simps [simp del]

definition show_int :: "int \<Rightarrow> string" where
  "show_int i = (if i < 0 then ''-'' @ show_nat (nat (- i)) else show_nat (nat i))"

fun join_with :: "string \<Rightarrow> string list \<Rightarrow> string" where
  "join_with sep [] = []"
| "join_with sep [s] = s"
| "join_with sep (s # t # ss) = s @ sep @ join_with sep (t # ss)"

fun is_sum :: "expr \<Rightarrow> bool" where
  "is_sum (Add a b) = True"
| "is_sum (Sub a b) = True"
| "is_sum e = False"

fun show_expr :: "expr \<Rightarrow> string" where
  "show_expr (Symbol s) = s"
| "show_expr (Integer i) = show_int i"
| "show_expr (Add a b) = show_expr a @ '' + '' @ show_expr b"
| "show_expr (Sub a b) = show_expr a @ '' - ('' @ show_expr b @ '')''"
| "show_expr (Mul a b) =
     (if is_sum a then ''('' @ show_expr a @ '')'' else show_expr a) @ ''*'' @
     (if is_sum b then ''('' @ show_expr b @ '')'' else show_expr b)"
| "show_expr (Pow a b) = ''('' @ show_expr a @ '')**'' @ show_expr b"
| "show_expr (Exp a) = ''exp('' @ show_expr a @ '')''"
| "show_expr (Sin a) = ''sin('' @ show_expr a @ '')''"
| "show_expr (Cos a) = ''cos('' @ show_expr a @ '')''"
| "show_expr (Sqrt a) = ''sqrt('' @ show_expr a @ '')''"
| "show_expr (Ln a) = ''log('' @ show_expr a @ '')''"
| "show_expr (Asin a) = ''asin('' @ show_expr a @ '')''"
| "show_expr (Atan a) = ''atan('' @ show_expr a @ '')''"
| "show_expr (AppliedUndef f a) = f @ ''('' @ show_expr a @ '')''"
| "show_expr (Other h args) = h @ ''('' @ join_with '', '' (map show_expr args) @ '')''"

fun example_diff :: "string \<Rightarrow> expr \<Rightarrow> expr option" where
  "example_diff x (Symbol s) = Some (Integer (if s = x then 1 else 0))"
| "example_diff x (Integer i) = Some (Integer 0)"
| "example_diff x (Add a b) =
     (case (example_diff x a, example_diff x b) of
        (Some a', Some b') \<Rightarrow> Some (Add a' b') | _ \<Rightarrow> None)"
| "example_diff x (Sub a b) =
     (case (example_diff x a, example_diff x b) of
        (Some a', Some b') \<Rightarrow> Some (Sub a' b') | _ \<Rightarrow> None)"
| "example_diff x (Mul (Integer k) b) =
     (case example_diff x b of Some b' \<Rightarrow> Some (Mul (Integer k) b') | None \<Rightarrow> None)"
| "example_diff x (Other h args) =
     (if h = ''Integral'' \<and> length args = 2 \<and> args ! 1 = Symbol x then Some (args ! 0) else None)"
| "example_diff x e = None"

fun example_norm :: "expr \<Rightarrow> expr" where
  "example_norm (Add a b) =
     (if example_norm b = Integer 0 then example_norm a
      else if example_norm a = Integer 0 then example_norm b
      else Add (example_norm a) (example_norm b))"
| "example_norm (Sub a b) =
     (if example_norm a = example_norm b then Integer 0
      else Sub (example_norm a) (example_norm b))"
| "example_norm (Mul (Integer k) b) =
     (if k = 0 \<or> example_norm b = Integer 0 then Integer 0 else Mul (Integer k) (example_norm b))"
| "example_norm e = e"

definition example_parse ::
  "expr list \<Rightarrow> pyval \<Rightarrow> (string \<times> expr) list \<Rightarrow> string + expr" where
  "example_parse table v local_dict =
     (case v of
        PStr s \<Rightarrow>
          (case find (\<lambda>e. show_expr e = s) table of
             Some e \<Rightarrow> Inr e
           | None \<Rightarrow> Inl ''SyntaxError'')
      | _ \<Rightarrow> Inl ''TypeError'')"

definition example_sympy :: "expr list \<Rightarrow> sympy" where
  "example_sympy table =
     \<lparr> integrate = (\<lambda>e x. Inr (Other ''Integral'' [e, x])),
       str_expr = show_expr,
       parse_expr = example_parse table,
       diff = (\<lambda>e x. case x of
                 Symbol s \<Rightarrow> (case example_diff s e of
                                Some d \<Rightarrow> Inr d | None \<Rightarrow> Inl ''NotImplementedError'')
               | _ \<Rightarrow> Inl ''ValueError''),
       simplify = (\<lambda>e. Inr (example_norm e)) \<rparr>"

definition example_config :: IntermediateIntegrationConfig where
  "example_config = default_config\<lparr> seed := Some 42, size_c := 10 \<rparr>"

definition example_dataset :: IntermediateIntegrationDataset where
  "example_dataset =
     \<lparr> self_config = example_config, self_seed = 42, self_size = 10,
       prompt_template = prompt_templates,
       added_instruction = added_instruction_text \<rparr>"

text \<open>
  Item 3 of the example dataset under the example instance, and the table of expressions
  whose texts the example engine reads back: the integrand of that item, its canonical
  answer, and one further antiderivative candidate.
\<close>

definition example_integrand :: expr where
  "example_integrand =
     Mul (Integer (- 2))
       (Mul (Integer 10) (Sqrt (Add (Mul (Integer 10) (Symbol ''x'')) (Integer 4))))"

definition example_table :: "expr list" where
  "example_table =
     [example_integrand,
      Add (Other ''Integral'' [example_integrand, Symbol ''x'']) (Symbol ''C''),
      Add (Symbol ''x'') (Symbol ''C'')]"

definition example_metadata :: pyval where
  "example_metadata =
     PDict
       [(''integrand'', PStr ''-2*10*sqrt(10*x + 4)''),
        (''problem_type'', PStr ''radical''),
        (''variable'', PStr ''x''),
        (''expected_answer_expression'',
           PExpr (Other ''Integral'' [example_integrand, Symbol ''x''])),
        (''difficulty'',
           PDict [(''problem_type_weights'',
                     PList (map PFloat [1/8, 1/8, 1/8, 1/8, 1/8, 1/8, 1/8, 1/8]))])]"

definition example_item :: pyval where
  "example_item =
     PDict
       [(''question'',
           PStr (''Find the indefinite integral: '' @ integral_sign @
                 '' -2*10*sqrt(10*x + 4) dx'' @ added_instruction_text)),
        (''answer'', PStr ''Integral(-2*10*sqrt(10*x + 4), x) + C''),
        (''metadata'', example_metadata)]"

section \<open>Predicates on generators\<close>

text \<open>
  Two predicates for reasoning about a computation that draws from the random source:
  the exceptions it can raise, and a property of every value it returns.
\<close>

definition raises_only :: "py_error set \<Rightarrow> 'a gen \<Rightarrow> bool" where
  "raises_only E m = (\<forall>r e. m r = Inl e \<longrightarrow> e \<in> E)"

definition yields :: "('a \<Rightarrow> bool) \<Rightarrow> 'a gen \<Rightarrow> bool" where
  "yields P m = (\<forall>r v r'. m r = Inr (v, r') \<longrightarrow> P v)"

text \<open>Every exception but \<^verbatim>\<open>UnboundLocalError\<close>.\<close>

definition no_ule :: "py_error set" where
  "no_ule = - {UnboundLocalError}"

section \<open>The meaning of an expression\<close>

text \<open>
  The real number that an expression denotes, given a value \<open>v\<close> for every symbol and a
  real function \<open>F\<close> for every name of an undefined function. A power with an integer
  literal as exponent is the integer power. The objects that only the library builds
  (\<open>Other\<close>) are given the value 0; the generator builds none of them.
\<close>

fun denote :: "(string \<Rightarrow> real \<Rightarrow> real) \<Rightarrow> (string \<Rightarrow> real) \<Rightarrow> expr \<Rightarrow> real" where
  "denote F v (Symbol s) = v s"
| "denote F v (Integer i) = of_int i"
| "denote F v (Add a b) = denote F v a + denote F v b"
| "denote F v (Sub a b) = denote F v a - denote F v b"
| "denote F v (Mul a b) = denote F v a * denote F v b"
| "denote F v (Pow a (Integer n)) =
     (if 0 \<le> n then denote F v a ^ nat n else inverse (denote F v a ^ nat (- n)))"
| "denote F v (Pow a b) = denote F v a powr denote F v b"
| "denote F v (Exp a) = exp (denote F v a)"
| "denote F v (Sin a) = sin (denote F v a)"
| "denote F v (Cos a) = cos (denote F v a)"
| "denote F v (Sqrt a) = sqrt (denote F v a)"
| "denote F v (Ln a) = ln (denote F v a)"
| "denote F v (Asin a) = arcsin (denote F v a)"
| "denote F v (Atan a) = arctan (denote F v a)"
| "denote F v (AppliedUndef f a) = F f (denote F v a)"
| "denote F v (Other h args) = 0"

text \<open>
  An expression that is not the zero function: some interpretation and some values of the
  symbols give it a value other than 0. No sound rewriting turns such an expression into
  the zero expression.
\<close>

definition denotes_nonzero :: "expr \<Rightarrow> bool" where
  "denotes_nonzero e = (\<exists>F v. denote F v e \<noteq> 0)"

text \<open>
  An expression of the form \<^verbatim>\<open>m * body\<close> or \<^verbatim>\<open>m * d * body\<close> with a nonzero integer \<open>m\<close>:
  the two forms in which the generators multiply by the outer constant.
\<close>

definition scaled_by_nonzero :: "expr \<Rightarrow> bool" where
  "scaled_by_nonzero e =
     (\<exists>m body. m \<noteq> 0 \<and> (e = Mul (Integer m) body \<or> (\<exists>d. e = Mul (Mul (Integer m) d) body)))"

definition well_scaled :: "expr \<Rightarrow> bool" where
  "well_scaled e = (scaled_by_nonzero e \<and> denotes_nonzero e)"

section \<open>Validation\<close>

lemma validate_ok_iff: "validate c = Inr () \<longleftrightarrow> constraints_hold c"
  unfolding validate_def constraints_hold_def by (auto simp: list_all_iff)

lemma validate_error: "validate c \<noteq> Inr () \<Longrightarrow> is_assertion_error (validate c)"
  unfolding validate_def is_assertion_error_def by (simp split: if_splits)

lemma dataset_init_invalid:
  "validate c \<noteq> Inr () \<Longrightarrow> \<exists>e. dataset_init c entropy = Inl (ConfigurationError e)"
  unfolding dataset_init_def ProceduralDataset_init_def by (cases "validate c") auto

lemma validate_default_config: "validate default_config = Inr ()"
  by (simp add: validate_def default_config_def default_problem_types_def)

text \<open>
  Claim C5. \<^verbatim>\<open>validate()\<close> returns exactly for the configurations that satisfy every stated
  constraint (positive size, equal lengths of problem types and weights, positive and
  ordered bounds, operators among \<open>+\<close> and \<open>-\<close>, symbols among \<open>x\<close> and \<open>X\<close>). For every
  other configuration it raises \<^verbatim>\<open>AssertionError\<close>, and the construction of a dataset fails
  before an item can be generated. In particular the default configuration with
  \<^verbatim>\<open>size=0\<close> is rejected with the message of the size assertion.
\<close>

theorem validate_rejects_violations:
  "(validate c = Inr () \<longleftrightarrow> constraints_hold c)
   \<and> (\<not> constraints_hold c \<longrightarrow>
        is_assertion_error (validate c)
        \<and> (\<forall>entropy. \<exists>e. dataset_init c entropy = Inl (ConfigurationError e)))
   \<and> validate (default_config\<lparr>size_c := 0\<rparr>) = Inl (AssertionError ''size must be positive'')"
proof (intro conjI impI allI)
  show "validate c = Inr () \<longleftrightarrow> constraints_hold c"
    by (rule validate_ok_iff)
next
  assume "\<not> constraints_hold c"
  then show "is_assertion_error (validate c)"
    by (simp add: validate_error validate_ok_iff)
next
  fix entropy
  assume "\<not> constraints_hold c"
  then show "\<exists>e. dataset_init c entropy = Inl (ConfigurationError e)"
    by (simp add: dataset_init_invalid validate_ok_iff)
next
  show "validate (default_config\<lparr>size_c := 0\<rparr>) = Inl (AssertionError ''size must be positive'')"
    by (simp add: validate_def default_config_def default_problem_types_def)
qed

theorem validate_rejects_violations_witness:
  "\<not> constraints_hold (default_config\<lparr>problem_type_weights := [1]\<rparr>)
   \<and> is_assertion_error (validate (default_config\<lparr>problem_type_weights := [1]\<rparr>))
   \<and> (\<exists>e. dataset_init (default_config\<lparr>problem_type_weights := [1]\<rparr>) 0
             = Inl (ConfigurationError e))"
proof -
  have h: "\<not> constraints_hold (default_config\<lparr>problem_type_weights := [1]\<rparr>)"
    by (simp add: constraints_hold_def default_config_def default_problem_types_def)
  with validate_rejects_violations [of "default_config\<lparr>problem_type_weights := [1]\<rparr>"]
  show ?thesis by blast
qed


section \<open>Evaluation of the example instance\<close>

lemmas gen_defs = bind_gen_def return_gen_def raise_gen_def randint_def choice_def random_py_def
  next_raw_def choices1_def accumulate_def lift_lib_def lib_call_def Let_def
  numeral_2_eq_2[symmetric] bisect.simps

lemma example_dataset_simps:
  "self_config example_dataset = example_config" "self_seed example_dataset = 42"
  "self_size example_dataset = 10"
  "prompt_template example_dataset = prompt_templates"
  "added_instruction example_dataset = added_instruction_text"
  by (simp_all add: example_dataset_def)

lemma show_example_integrand: "show_expr example_integrand = ''-2*10*sqrt(10*x + 4)''"
  by (simp add: example_integrand_def show_int_def show_nat.simps)

lemma example_draw:
  "draw_integrand example_config (example_rng 45)
     = Inr ((''radical'', Symbol ''x'', example_integrand), Rng (raw (example_rng 45)) 8)"
  by (simp add: draw_integrand_def example_config_def default_config_def
      default_problem_types_def example_rng_def gen_defs dispatch_def
      generate_radical_substitution_def signed_coefficient_def get_outer_constant_def
      example_integrand_def)

lemma example_getitem:
  "getitem example_rng (example_sympy example_table) example_dataset 3 = Inr example_item"
  apply (simp add: getitem_def getitem_body_def example_dataset_simps bind_gen_def example_draw)
  apply (simp add: example_item_def example_metadata_def gen_defs example_sympy_def
      show_example_integrand prompt_templates_def example_rng_def example_config_def
      default_config_def)
  done

lemma example_subscripts:
  "subscript example_item ''metadata'' = Inr example_metadata"
  "subscript example_metadata ''variable'' = Inr (PStr ''x'')"
  "subscript example_metadata ''integrand'' = Inr (PStr ''-2*10*sqrt(10*x + 4)'')"
  by (simp_all add: subscript_def example_item_def example_metadata_def)

lemma example_parse_table:
  "example_parse example_table (PStr ''-2*10*sqrt(10*x + 4)'') ld = Inr example_integrand"
  "example_parse example_table (PStr ''Integral(-2*10*sqrt(10*x + 4), x) + C'') ld
     = Inr (Add (Other ''Integral'' [example_integrand, Symbol ''x'']) (Symbol ''C''))"
  "example_parse example_table (PStr ''x + C'') ld = Inr (Add (Symbol ''x'') (Symbol ''C''))"
  "example_parse example_table (PStr ''not a valid expression $$$'') ld = Inl ''SyntaxError''"
  by (simp_all add: example_parse_def example_table_def show_example_integrand)

lemma example_sympy_simps:
  "parse_expr (example_sympy t) = example_parse t"
  "simplify (example_sympy t) e = Inr (example_norm e)"
  "diff (example_sympy t) e (Symbol s)
     = (case example_diff s e of Some d \<Rightarrow> Inr d | None \<Rightarrow> Inl ''NotImplementedError'')"
  by (simp_all add: example_sympy_def)

lemma example_score_try:
  "score_try (example_sympy example_table) (PStr ''Integral(-2*10*sqrt(10*x + 4), x) + C'')
     example_metadata = Inr 1"
  "score_try (example_sympy example_table) (PStr ''x + C'') example_metadata = Inr 0"
  "score_try (example_sympy example_table) (PStr ''not a valid expression $$$'')
     example_metadata = Inl (LibraryError ''SyntaxError'')"
  by (simp_all add: score_try_def bind_exc_def example_subscripts Symbol_of_def
      example_sympy_simps example_parse_table lib_call_def example_integrand_def)

section \<open>Scoring\<close>

lemma lib_call_simps [simp]:
  "lib_call (Inr v) = Inr v" "lib_call (Inl m) = Inl (LibraryError m)"
  unfolding lib_call_def by simp_all

lemma lib_call_Inr: "lib_call v = Inr a \<longleftrightarrow> v = Inr a"
  unfolding lib_call_def by (cases v) auto

lemma item_record_metadata:
  "is_item_record entry \<Longrightarrow> \<exists>md. subscript entry ''metadata'' = Inr md"
  unfolding is_item_record_def subscript_def by (cases entry) auto

lemma score_answer_returns:
  "subscript entry ''metadata'' = Inr md \<Longrightarrow> \<exists>r. score_answer sp answer entry = Inr r"
  unfolding score_answer_def by (cases answer; cases "score_try sp answer md") auto

lemma score_answer_not_str:
  "subscript entry ''metadata'' = Inr md \<Longrightarrow> \<forall>a. answer \<noteq> PStr a
     \<Longrightarrow> score_answer sp answer entry = Inr 0"
  unfolding score_answer_def by (cases answer) auto

lemma score_answer_caught:
  "subscript entry ''metadata'' = Inr md \<Longrightarrow> score_try sp answer md = Inl e
     \<Longrightarrow> score_answer sp answer entry = Inr 0"
  unfolding score_answer_def by (cases answer) auto

lemma score_answer_str:
  "subscript entry ''metadata'' = Inr md \<Longrightarrow>
     score_answer sp (PStr a) entry
       = (case score_try sp (PStr a) md of Inl e \<Rightarrow> Inr 0 | Inr reward \<Rightarrow> Inr reward)"
  unfolding score_answer_def by simp

lemma score_try_range: "score_try sp answer md = Inr r \<Longrightarrow> r = 0 \<or> r = 1"
  unfolding score_try_def bind_exc_def
  by (auto split: sum.splits prod.splits if_splits)

lemma score_answer_range: "score_answer sp answer entry = Inr r \<Longrightarrow> r = 0 \<or> r = 1"
  unfolding score_answer_def
  by (auto split: sum.splits pyval.splits dest: score_try_range)

lemma score_try_one_iff:
  "score_try sp (PStr a) md = Inr 1 \<longleftrightarrow> derivative_equivalent sp a md"
  unfolding score_try_def derivative_equivalent_def bind_exc_def Symbol_of_def
  by (auto simp: lib_call_Inr split: sum.splits prod.splits if_splits pyval.splits)

lemma score_answer_one_iff:
  assumes "subscript entry ''metadata'' = Inr md"
  shows "score_answer sp (PStr a) entry = Inr 1 \<longleftrightarrow> derivative_equivalent sp a md"
proof (cases "score_try sp (PStr a) md")
  case (Inl e)
  then have "\<not> derivative_equivalent sp a md"
    using score_try_one_iff [of sp a md] by simp
  with Inl assms show ?thesis by (simp add: score_answer_str)
next
  case (Inr r)
  with assms show ?thesis
    using score_try_one_iff [of sp a md] by (simp add: score_answer_str)
qed

lemma score_answer_zero:
  assumes "subscript entry ''metadata'' = Inr md" and "\<not> derivative_equivalent sp a md"
  shows "score_answer sp (PStr a) entry = Inr 0"
proof -
  obtain r where r: "score_answer sp (PStr a) entry = Inr r"
    using score_answer_returns [OF assms(1)] by blast
  then have "r = 0 \<or> r = 1" by (rule score_answer_range)
  moreover have "r \<noteq> 1"
    using r assms score_answer_one_iff [of entry md sp a] by auto
  ultimately show ?thesis using r by simp
qed


text \<open>
  Claim C2. For every candidate answer and every item record, \<^verbatim>\<open>score_answer\<close> returns a
  reward and raises nothing. An answer that is not a string (\<^verbatim>\<open>None\<close> among them) scores
  \<open>0.0\<close>, and so does every answer for which a step of the parsing and verification raises.
\<close>

theorem score_answer_never_raises:
  assumes "is_item_record entry"
  shows "(\<exists>r. score_answer sp answer entry = Inr r)
         \<and> score_answer sp PNone entry = Inr 0
         \<and> ((\<forall>a. answer \<noteq> PStr a) \<longrightarrow> score_answer sp answer entry = Inr 0)
         \<and> (\<forall>md e. subscript entry ''metadata'' = Inr md \<and> score_try sp answer md = Inl e
                \<longrightarrow> score_answer sp answer entry = Inr 0)"
proof -
  obtain md where md: "subscript entry ''metadata'' = Inr md"
    using item_record_metadata [OF assms] by blast
  have "\<exists>r. score_answer sp answer entry = Inr r"
    by (rule score_answer_returns [OF md])
  moreover have "score_answer sp PNone entry = Inr 0"
    by (rule score_answer_not_str [OF md]) simp
  moreover have "(\<forall>a. answer \<noteq> PStr a) \<longrightarrow> score_answer sp answer entry = Inr 0"
    using score_answer_not_str [OF md] by blast
  moreover have "\<forall>md e. subscript entry ''metadata'' = Inr md \<and> score_try sp answer md = Inl e
                   \<longrightarrow> score_answer sp answer entry = Inr 0"
    using score_answer_caught by blast
  ultimately show ?thesis by blast
qed

theorem score_answer_never_raises_witness:
  "is_item_record example_item
   \<and> score_try (example_sympy example_table) (PStr ''not a valid expression $$$'')
        example_metadata = Inl (LibraryError ''SyntaxError'')
   \<and> score_answer (example_sympy example_table) (PStr ''not a valid expression $$$'')
        example_item = Inr 0
   \<and> score_answer (example_sympy example_table) PNone example_item = Inr 0"
proof -
  have rec: "is_item_record example_item"
    by (simp add: is_item_record_def example_item_def)
  note inst = score_answer_never_raises [OF rec,
      of "example_sympy example_table" "PStr ''not a valid expression $$$''"]
  from inst example_subscripts(1) example_score_try(3)
  have "score_answer (example_sympy example_table) (PStr ''not a valid expression $$$'')
          example_item = Inr 0"
    by blast
  with rec inst example_score_try(3) show ?thesis by blast
qed



text \<open>
  Claim C4 does not hold of the code: \<^verbatim>\<open>score_answer\<close> has no partial credit. With the
  example engine, the answer \<^verbatim>\<open>x + C\<close> is well-formed (it parses) and wrong, and it
  scores \<open>0.0\<close>, which is also the score of a malformed answer.
\<close>

theorem score_answer_partial_credit_counterexample:
  "parse_expr (example_sympy example_table) (PStr ''x + C'')
       [(''x'', Symbol ''x''), (''C'', Symbol ''C'')] = Inr (Add (Symbol ''x'') (Symbol ''C''))
   \<and> score_answer (example_sympy example_table) (PStr ''x + C'') example_item = Inr 0
   \<and> score_answer (example_sympy example_table) (PStr ''not a valid expression $$$'')
        example_item = Inr 0"
  by (simp add: score_answer_str [OF example_subscripts(1)] example_score_try
      example_sympy_simps example_parse_table)

text \<open>
  Claim C4, amended. \<^verbatim>\<open>score_answer\<close> returns only \<open>0.0\<close> or \<open>1.0\<close>; every answer text that
  is not derivative-equivalent to the stored integrand, well-formed or malformed, scores
  \<open>0.0\<close>.
\<close>

theorem score_answer_is_binary:
  "(score_answer sp answer entry = Inr r \<longrightarrow> r = 0 \<or> r = 1)
   \<and> (subscript entry ''metadata'' = Inr md \<and> \<not> derivative_equivalent sp a md
        \<longrightarrow> score_answer sp (PStr a) entry = Inr 0)"
  using score_answer_range score_answer_zero by blast

theorem score_answer_is_binary_witness:
  "subscript example_item ''metadata'' = Inr example_metadata
   \<and> \<not> derivative_equivalent (example_sympy example_table) ''x + C'' example_metadata
   \<and> score_answer (example_sympy example_table) (PStr ''x + C'') example_item = Inr 0"
proof -
  have ne: "\<not> derivative_equivalent (example_sympy example_table) ''x + C'' example_metadata"
    using score_try_one_iff [of "example_sympy example_table" "''x + C''" example_metadata]
      example_score_try(2) by simp
  with score_answer_is_binary [of "example_sympy example_table" "PStr ''x + C''" example_item 0
      example_metadata "''x + C''"] example_subscripts(1)
  show ?thesis by blast
qed

section \<open>Generators: what they raise and what they return\<close>

lemma raises_only_return [intro!]: "raises_only E (return_gen v)"
  by (simp add: raises_only_def return_gen_def)

lemma raises_only_raise: "e \<in> E \<Longrightarrow> raises_only E (raise_gen e)"
  by (simp add: raises_only_def raise_gen_def)

lemma raises_only_randint: "ValueError \<in> E \<Longrightarrow> raises_only E (randint a b)"
  by (auto simp: raises_only_def randint_def next_raw_def split: if_splits)

lemma raises_only_choice: "IndexError \<in> E \<Longrightarrow> raises_only E (choice xs)"
  by (auto simp: raises_only_def choice_def next_raw_def split: if_splits)

lemma raises_only_choice_nonempty: "xs \<noteq> [] \<Longrightarrow> raises_only E (choice xs)"
  by (auto simp: raises_only_def choice_def next_raw_def split: if_splits)

lemma raises_only_random: "raises_only E random_py"
  by (simp add: raises_only_def random_py_def next_raw_def)

lemma raises_only_choices1:
  "ValueError \<in> E \<Longrightarrow> IndexError \<in> E \<Longrightarrow> raises_only E (choices1 pop ws)"
  by (auto simp: raises_only_def choices1_def random_py_def next_raw_def Let_def
      split: if_splits)

lemma raises_only_lift_lib: "LibraryError m \<in> E \<Longrightarrow> raises_only E (lift_lib (Inl m))"
  and raises_only_lift_lib_Inr: "raises_only E (lift_lib (Inr v))"
  by (simp_all add: raises_only_def lift_lib_def lib_call_def)

lemma raises_only_bind:
  assumes "raises_only E m" and "yields P m" and "\<And>v. P v \<Longrightarrow> raises_only E (f v)"
  shows "raises_only E (bind_gen m f)"
  using assms unfolding raises_only_def yields_def bind_gen_def
  by (fastforce split: sum.splits prod.splits)

lemma yields_True: "yields (\<lambda>v. True) m"
  by (simp add: yields_def)

lemma raises_only_bind':
  assumes "raises_only E m" and "\<And>v. raises_only E (f v)"
  shows "raises_only E (bind_gen m f)"
  using raises_only_bind [OF assms(1) yields_True] assms(2) by blast

lemma yields_return: "P v \<Longrightarrow> yields P (return_gen v)"
  by (simp add: yields_def return_gen_def)

lemma yields_raise: "yields P (raise_gen e)"
  by (simp add: yields_def raise_gen_def)

lemma randint_range:
  assumes "a \<le> b"
  shows "a + int (k mod nat (b - a + 1)) \<le> b"
proof -
  have "k mod nat (b - a + 1) < nat (b - a + 1)" using assms by simp
  then show ?thesis using assms by linarith
qed

lemma yields_randint: "yields (\<lambda>v. a \<le> v \<and> v \<le> b) (randint a b)"
  by (auto simp: yields_def randint_def next_raw_def randint_range split: if_splits)

lemma yields_choice: "yields (\<lambda>v. v \<in> set xs) (choice xs)"
  by (auto simp: yields_def choice_def next_raw_def split: if_splits)

lemma yields_random: "yields (\<lambda>u. 0 \<le> u \<and> u < 1) random_py"
  by (auto simp: yields_def random_py_def next_raw_def divide_less_eq)

lemma yields_bind:
  assumes "yields P m" and "\<And>v. P v \<Longrightarrow> yields Q (f v)"
  shows "yields Q (bind_gen m f)"
  using assms unfolding yields_def bind_gen_def
  by (fastforce split: sum.splits prod.splits)

lemma yields_weaken: "yields P m \<Longrightarrow> (\<And>v. P v \<Longrightarrow> Q v) \<Longrightarrow> yields Q m"
  by (auto simp: yields_def)

lemma bisect_bounds: "lo \<le> hi \<Longrightarrow> lo \<le> bisect a x lo hi \<and> bisect a x lo hi \<le> hi"
proof (induction a x lo hi rule: bisect.induct)
  case (1 a x lo hi)
  show ?case
  proof (cases "lo < hi")
    case True
    then have mid: "lo \<le> (lo + hi) div 2" "(lo + hi) div 2 + 1 \<le> hi" by auto
    show ?thesis
    proof (cases "x < a ! ((lo + hi) div 2)")
      case lt: True
      with True "1.IH"(1) mid show ?thesis
        by (subst (1 2) bisect.simps) auto
    next
      case ge: False
      with True "1.IH"(2) mid show ?thesis
        by (subst (1 2) bisect.simps) auto
    qed
  next
    case False
    with "1.prems" show ?thesis by (subst (1 2) bisect.simps) simp
  qed
qed

lemma length_accumulate_from: "length (accumulate_from s ws) = length ws"
  by (induction ws arbitrary: s) auto

lemma accumulate_from_Nil: "accumulate_from s ws = [] \<longleftrightarrow> ws = []"
  by (cases ws) auto

lemma yields_choices1: "yields (\<lambda>v. v \<in> set pop) (choices1 pop ws)"
proof -
  have mem: "pop ! bisect cum y 0 (length pop - 1) \<in> set pop" if "pop \<noteq> []" for cum y
  proof -
    have "bisect cum y 0 (length pop - 1) \<le> length pop - 1"
      using bisect_bounds [of 0 "length pop - 1" cum y] by simp
    moreover have "length pop - 1 < length pop" using that by simp
    ultimately show ?thesis by (intro nth_mem) linarith
  qed
  have ne: "pop \<noteq> []" if "length ws = length pop" "accumulate_from 0 ws \<noteq> []"
    using that by (auto simp: accumulate_from_Nil)
  show ?thesis
    unfolding yields_def choices1_def random_py_def next_raw_def Let_def accumulate_def
    using mem ne by (auto simp: length_accumulate_from split: if_splits)
qed


section \<open>The dispatch of \<^verbatim>\<open>__getitem__\<close>\<close>


lemma no_ule_simps [simp]:
  "ValueError \<in> no_ule" "IndexError \<in> no_ule" "LibraryError m \<in> no_ule"
  "UnboundLocalError \<notin> no_ule"
  by (simp_all add: no_ule_def)

lemmas raises_intros =
  raises_only_return raises_only_randint raises_only_choice raises_only_random
  raises_only_choices1 raises_only_bind'

lemma raises_get_outer_constant: "raises_only no_ule (get_outer_constant c)"
  unfolding get_outer_constant_def by (auto intro!: raises_intros)

lemma raises_signed_coefficient: "raises_only no_ule (signed_coefficient c)"
  unfolding signed_coefficient_def by (auto intro!: raises_intros)

lemma raises_signed_terms: "raises_only no_ule (signed_terms c n)"
  by (induction n) (auto intro!: raises_intros raises_signed_coefficient)

lemma raises_linear: "raises_only no_ule (generate_linear_substitution_problem c x)"
  unfolding generate_linear_substitution_problem_def
  by (auto intro!: raises_intros raises_get_outer_constant)

lemma raises_exponential: "raises_only no_ule (generate_exponential_substitution c x)"
  unfolding generate_exponential_substitution_def
  by (auto intro!: raises_intros raises_get_outer_constant raises_signed_terms)

lemma raises_radical: "raises_only no_ule (generate_radical_substitution c x)"
  unfolding generate_radical_substitution_def
  by (auto intro!: raises_intros raises_get_outer_constant raises_signed_coefficient)

lemma raises_trigonometric: "raises_only no_ule (generate_trigonometric_substitution c x)"
  unfolding generate_trigonometric_substitution_def
  by (auto intro!: raises_intros raises_get_outer_constant raises_signed_coefficient)

lemma raises_polynomial_exp_trig: "raises_only no_ule (generate_polynomial_exp_trig c x)"
  unfolding generate_polynomial_exp_trig_def
  by (auto intro!: raises_intros raises_get_outer_constant)

lemma raises_cyclic: "raises_only no_ule (generate_cyclic_integral c x)"
  unfolding generate_cyclic_integral_def
  by (auto intro!: raises_intros raises_get_outer_constant)

lemma raises_repeated_parts: "raises_only no_ule (generate_repeated_parts c x)"
  unfolding generate_repeated_parts_def
  by (auto intro!: raises_intros raises_get_outer_constant)

lemma raises_log_inverse_trig: "raises_only no_ule (generate_log_inverse_trig c x)"
  unfolding generate_log_inverse_trig_def
proof (rule raises_only_bind [OF _ yields_choice])
  show "raises_only no_ule (choice [''log'', ''asin'', ''atan''])"
    by (rule raises_only_choice) simp
next
  fix func_type :: string
  assume "func_type \<in> set [''log'', ''asin'', ''atan'']"
  then have ft: "func_type = ''log'' \<or> func_type = ''asin'' \<or> func_type = ''atan''"
    by auto
  show "raises_only no_ule
          (bind_gen (randint 1 3) (\<lambda>coefficient.
           bind_gen (if func_type = ''log''
               then bind_gen random_py (\<lambda>u.
                    bind_gen (if u < 8 / 10 then return_gen x
                              else bind_gen (randint 2 3) (\<lambda>e. return_gen (Pow x (Integer e))))
                      (\<lambda>log_arg.
                    return_gen (Ln log_arg)))
               else if func_type = ''asin'' then return_gen (Asin (Mul (Integer coefficient) x))
               else if func_type = ''atan'' then return_gen (Atan (Mul (Integer coefficient) x))
               else raise_gen UnboundLocalError)
             (\<lambda>func.
           bind_gen (get_outer_constant c) (\<lambda>k.
           return_gen (Mul (Integer k) func)))))"
    using ft by (auto intro!: raises_intros raises_get_outer_constant)
qed

lemma raises_dispatch:
  assumes "problem_type \<in> set default_problem_types"
  shows "raises_only no_ule (dispatch c problem_type x)"
  using assms unfolding dispatch_def default_problem_types_def
  by (auto simp: raises_linear raises_exponential raises_radical raises_trigonometric
      raises_polynomial_exp_trig raises_cyclic raises_repeated_parts raises_log_inverse_trig)

lemma raises_draw_integrand:
  assumes "problem_types c = default_problem_types"
  shows "raises_only no_ule (draw_integrand c)"
  unfolding draw_integrand_def
proof (rule raises_only_bind [OF _ yields_choices1])
  show "raises_only no_ule (choices1 (problem_types c) (problem_type_weights c))"
    by (rule raises_only_choices1) simp_all
next
  fix problem_type
  assume "problem_type \<in> set (problem_types c)"
  then have "problem_type \<in> set default_problem_types" using assms by simp
  then show "raises_only no_ule
     (bind_gen (choice (symbols c)) (\<lambda>s.
      bind_gen (dispatch c problem_type (Symbol s)) (\<lambda>integrand.
      return_gen (problem_type, Symbol s, integrand))))"
    by (auto intro!: raises_intros raises_dispatch)
qed

lemma raises_lift_lib: "raises_only no_ule (lift_lib v)"
  by (cases v) (simp_all add: raises_only_lift_lib raises_only_lift_lib_Inr)

lemma raises_getitem_body:
  assumes "problem_types (self_config self) = default_problem_types"
  shows "raises_only no_ule (getitem_body sp self)"
  unfolding getitem_body_def
  by (intro raises_only_bind' raises_draw_integrand [OF assms])
     (auto intro!: raises_only_bind' raises_only_choice raises_lift_lib)

lemma getitem_no_unbound_local:
  assumes "problem_types (self_config self) = default_problem_types"
  shows "getitem mk_rng sp self index \<noteq> Inl UnboundLocalError"
proof
  assume raised: "getitem mk_rng sp self index = Inl UnboundLocalError"
  then have "getitem_body sp self (mk_rng (self_seed self + index)) = Inl UnboundLocalError"
    unfolding getitem_def by (simp split: sum.splits prod.splits)
  then have "UnboundLocalError \<in> no_ule"
    using raises_getitem_body [OF assms, of sp] unfolding raises_only_def by blast
  then show False by simp
qed

lemma validate_problem_types:
  "length pts = length (problem_types c) \<Longrightarrow> validate (c\<lparr>problem_types := pts\<rparr>) = validate c"
  by (simp add: validate_def)

lemma example_unhandled:
  "getitem example_rng sp
     (example_dataset\<lparr>self_config :=
        default_config\<lparr>problem_types := [''quadratic''], problem_type_weights := [1]\<rparr>\<rparr>) 0
   = Inl UnboundLocalError"
  by (simp add: getitem_def getitem_body_def draw_integrand_def dispatch_def example_dataset_def
      default_config_def example_rng_def gen_defs accumulate_from.simps)

text \<open>
  Claim C9. When \<^verbatim>\<open>problem_types\<close> is the default tuple of eight names, every name that
  \<^verbatim>\<open>rng.choices\<close> can return is one of the branches of the \<^verbatim>\<open>if\<close>/\<^verbatim>\<open>elif\<close> chain, so
  \<^verbatim>\<open>__getitem__\<close> never raises \<^verbatim>\<open>UnboundLocalError\<close>. \<^verbatim>\<open>validate()\<close> does not look at the
  contents of \<^verbatim>\<open>problem_types\<close>: replacing the names by as many other names does not
  change its result, and a configuration with the single unknown name \<^verbatim>\<open>quadratic\<close>
  passes validation and reaches the unhandled case.
\<close>

theorem dispatch_handles_default_problem_types:
  "(problem_types (self_config self) = default_problem_types
      \<longrightarrow> getitem mk_rng sp self index \<noteq> Inl UnboundLocalError)
   \<and> (length pts = length (problem_types c)
      \<longrightarrow> validate (c\<lparr>problem_types := pts\<rparr>) = validate c)
   \<and> validate (default_config\<lparr>problem_types := [''quadratic''], problem_type_weights := [1]\<rparr>)
       = Inr ()
   \<and> getitem example_rng sp
        (example_dataset\<lparr>self_config :=
           default_config\<lparr>problem_types := [''quadratic''], problem_type_weights := [1]\<rparr>\<rparr>) 0
       = Inl UnboundLocalError"
proof (intro conjI impI)
  assume "problem_types (self_config self) = default_problem_types"
  then show "getitem mk_rng sp self index \<noteq> Inl UnboundLocalError"
    by (rule getitem_no_unbound_local)
next
  assume "length pts = length (problem_types c)"
  then show "validate (c\<lparr>problem_types := pts\<rparr>) = validate c"
    by (rule validate_problem_types)
next
  show "validate (default_config\<lparr>problem_types := [''quadratic''], problem_type_weights := [1]\<rparr>)
          = Inr ()"
    by (simp add: validate_def default_config_def)
next
  show "getitem example_rng sp
          (example_dataset\<lparr>self_config :=
             default_config\<lparr>problem_types := [''quadratic''], problem_type_weights := [1]\<rparr>\<rparr>) 0
        = Inl UnboundLocalError"
    by (rule example_unhandled)
qed

theorem dispatch_handles_default_problem_types_witness:
  "problem_types (self_config example_dataset) = default_problem_types
   \<and> getitem example_rng (example_sympy example_table) example_dataset 3
        \<noteq> Inl UnboundLocalError
   \<and> length [''a'', ''b'', ''c'', ''d'', ''e'', ''f'', ''g'', ''h'']
        = length (problem_types default_config)
   \<and> validate (default_config\<lparr>problem_types :=
                   [''a'', ''b'', ''c'', ''d'', ''e'', ''f'', ''g'', ''h'']\<rparr>)
        = validate default_config"
proof -
  have a: "problem_types (self_config example_dataset) = default_problem_types"
    by (simp add: example_dataset_def example_config_def default_config_def)
  have b: "length [''a'', ''b'', ''c'', ''d'', ''e'', ''f'', ''g'', ''h'']
             = length (problem_types default_config)"
    by (simp add: default_config_def default_problem_types_def)
  from a b dispatch_handles_default_problem_types
    [of example_dataset example_rng "example_sympy example_table" 3
        "[''a'', ''b'', ''c'', ''d'', ''e'', ''f'', ''g'', ''h'']" default_config]
  show ?thesis by blast
qed

section \<open>Determinism and the role of the index\<close>





lemma getitem_problem_type:
  assumes "draw_integrand (self_config self) (mk_rng (self_seed self + index))
             = Inr ((pt, x, e), r)"
    and "integrate sp e x = Inr a"
    and "prompt_template self \<noteq> []"
  shows "\<exists>item md. getitem mk_rng sp self index = Inr item
           \<and> subscript item ''metadata'' = Inr md
           \<and> subscript md ''problem_type'' = Inr (PStr pt)"
  using assms
  by (simp add: getitem_def getitem_body_def bind_gen_def lift_lib_def choice_def
      next_raw_def return_gen_def subscript_def split: prod.splits)

lemma example_draw_0:
  "\<exists>e r. draw_integrand example_config (example_rng 42)
     = Inr ((''polynomial_exp_trig'', Symbol ''x'', e), r)"
  by (simp add: draw_integrand_def example_config_def default_config_def
      default_problem_types_def example_rng_def gen_defs dispatch_def
      generate_polynomial_exp_trig_def get_outer_constant_def)

lemma example_draw_10:
  "\<exists>e r. draw_integrand example_config (example_rng 52)
     = Inr ((''radical'', Symbol ''x'', e), r)"
  by (simp add: draw_integrand_def example_config_def default_config_def
      default_problem_types_def example_rng_def gen_defs dispatch_def
      generate_radical_substitution_def signed_coefficient_def get_outer_constant_def)

text \<open>
  Claim C6 does not hold of the code: \<^verbatim>\<open>__getitem__\<close> does not reduce the index modulo the
  size. In the example dataset, of size 10, the item at index 10 is not the item at index
  \<open>10 mod 10\<close>.
\<close>

theorem getitem_wraps_counterexample:
  "self_size example_dataset = 10
   \<and> getitem example_rng (example_sympy example_table) example_dataset 10
       \<noteq> getitem example_rng (example_sympy example_table) example_dataset (10 mod 10)"
proof -
  have int: "integrate (example_sympy example_table) e x = Inr (Other ''Integral'' [e, x])"
    for e x by (simp add: example_sympy_def)
  have tmpl: "prompt_template example_dataset \<noteq> []"
    by (simp add: example_dataset_def prompt_templates_def)
  obtain e0 r0 where "draw_integrand example_config (example_rng 42)
      = Inr ((''polynomial_exp_trig'', Symbol ''x'', e0), r0)"
    using example_draw_0 by blast
  then have d0: "draw_integrand (self_config example_dataset)
      (example_rng (self_seed example_dataset + 0))
      = Inr ((''polynomial_exp_trig'', Symbol ''x'', e0), r0)"
    by (simp add: example_dataset_simps)
  obtain e1 r1 where "draw_integrand example_config (example_rng 52)
      = Inr ((''radical'', Symbol ''x'', e1), r1)"
    using example_draw_10 by blast
  then have d1: "draw_integrand (self_config example_dataset)
      (example_rng (self_seed example_dataset + 10))
      = Inr ((''radical'', Symbol ''x'', e1), r1)"
    by (simp add: example_dataset_simps)
  from getitem_problem_type [of example_dataset example_rng 0, OF d0 int tmpl]
    getitem_problem_type [of example_dataset example_rng 10, OF d1 int tmpl]
  have "getitem example_rng (example_sympy example_table) example_dataset 10
          \<noteq> getitem example_rng (example_sympy example_table) example_dataset 0"
    by auto
  then show ?thesis by (simp add: example_dataset_simps)
qed

text \<open>
  Claim C6, amended. \<^verbatim>\<open>__getitem__\<close> never consults the size and has no strict mode: for
  every index, also one at or beyond the size, the result (the item or the exception) is
  the one of the random source made from \<^verbatim>\<open>seed + index\<close>. It is the same for every size,
  and it depends on the seed and the index only through their sum.
\<close>

theorem getitem_ignores_size:
  "getitem mk_rng sp (self\<lparr>self_size := n\<rparr>) index = getitem mk_rng sp self index
   \<and> getitem mk_rng sp (self\<lparr>self_seed := self_seed self + k\<rparr>) index
       = getitem mk_rng sp self (index + k)"
  by (simp add: getitem_def getitem_body_def add.assoc add.commute [of k index])


section \<open>The curriculum\<close>

lemma map_of_set_level:
  "map_of kvs n = Some l \<Longrightarrow>
     map_of (map (\<lambda>(k, v). if k = n then (k, l') else (k, v)) kvs) n = Some l'"
  by (induction kvs) (auto split: if_splits)

lemma get_attribute_set_attr_level [simp]:
  "get_attribute (set_attr_level c n l) m = get_attribute c m"
  by (simp add: get_attribute_def set_attr_level_def)

lemma current_levels_set_attr_level [simp]:
  "current_levels (set_attr_level c n l)
     = map (\<lambda>(k, v). if k = n then (k, l) else (k, v)) (current_levels c)"
  by (simp add: set_attr_level_def)

lemma step_attr_level_result:
  assumes "get_attribute c n = Some a" and "get_attr_level c n = Some l"
  shows "\<exists>c'. step_attr_level d c n = Some c'
           \<and> get_attr_level c' n = Some (clamp_level a (l + d))"
proof -
  from assms have lv: "map_of (current_levels c) n = Some l"
    by (simp add: get_attr_level_def)
  then have "get_attr_level (set_attr_level c n (clamp_level a (l + d))) n
               = Some (clamp_level a (l + d))"
    using assms(1) by (simp add: get_attr_level_def map_of_set_level)
  with assms(1) lv show ?thesis by (simp add: step_attr_level_def)
qed

lemma clamp_level_up:
  "0 \<le> l \<Longrightarrow> l < int (length (levels a)) \<Longrightarrow>
     clamp_level a (l + 1) = (if l = int (length (levels a)) - 1 then l else l + 1)"
  by (auto simp: clamp_level_def)

lemma clamp_level_down:
  "0 \<le> l \<Longrightarrow> l < int (length (levels a)) \<Longrightarrow>
     clamp_level a (l + - 1) = (if l = 0 then l else l - 1)"
  by (auto simp: clamp_level_def)

lemma curriculum_attribute:
  "get_attribute IntermediateIntegrationCurriculum ''problem_type_weights''
     = Some problem_type_weights_attr"
  by (simp add: get_attribute_def IntermediateIntegrationCurriculum_def
      problem_type_weights_attr_def)

lemma curriculum_initial_level:
  "get_attr_level IntermediateIntegrationCurriculum ''problem_type_weights'' = Some 0"
  by (simp add: get_attr_level_def curriculum_attribute)
     (simp add: IntermediateIntegrationCurriculum_def)

lemma num_levels: "length (levels problem_type_weights_attr) = 8"
  by (simp add: problem_type_weights_attr_def problem_type_weights_levels_def)

lemma increment_level:
  "increment_attr_level
     (IntermediateIntegrationCurriculum\<lparr>current_levels := [(''problem_type_weights'', l)]\<rparr>)
     ''problem_type_weights''
   = Some (IntermediateIntegrationCurriculum
       \<lparr>current_levels := [(''problem_type_weights'', max 0 (min 7 (l + 1)))]\<rparr>)"
  by (simp add: increment_attr_level_def step_attr_level_def get_attribute_def
      set_attr_level_def clamp_level_def IntermediateIntegrationCurriculum_def
      problem_type_weights_attr_def problem_type_weights_levels_def)

lemma decrement_level:
  "decrement_attr_level
     (IntermediateIntegrationCurriculum\<lparr>current_levels := [(''problem_type_weights'', l)]\<rparr>)
     ''problem_type_weights''
   = Some (IntermediateIntegrationCurriculum
       \<lparr>current_levels := [(''problem_type_weights'', max 0 (min 7 (l - 1)))]\<rparr>)"
  by (simp add: decrement_attr_level_def step_attr_level_def get_attribute_def
      set_attr_level_def clamp_level_def IntermediateIntegrationCurriculum_def
      problem_type_weights_attr_def problem_type_weights_levels_def)

lemma curriculum_as_update:
  "IntermediateIntegrationCurriculum
     = IntermediateIntegrationCurriculum\<lparr>current_levels := [(''problem_type_weights'', 0)]\<rparr>"
  by (simp add: IntermediateIntegrationCurriculum_def)

lemma increment_eight_times:
  "increment_times 8 IntermediateIntegrationCurriculum ''problem_type_weights''
     = Some (IntermediateIntegrationCurriculum
         \<lparr>current_levels := [(''problem_type_weights'', 7)]\<rparr>)"
  by (subst curriculum_as_update) (simp add: eval_nat_numeral increment_level)

lemma level_of_update:
  "get_attr_level
     (IntermediateIntegrationCurriculum\<lparr>current_levels := [(''problem_type_weights'', l)]\<rparr>)
     ''problem_type_weights'' = Some l"
  by (simp add: get_attr_level_def get_attribute_def)
     (simp add: IntermediateIntegrationCurriculum_def problem_type_weights_attr_def)

text \<open>
  Claim C7. For an attribute of a curriculum whose current level is a valid index,
  \<^verbatim>\<open>increment_attr_level\<close> and \<^verbatim>\<open>decrement_attr_level\<close> return (they do not raise) and
  move the level by one, except at the last level and at level 0, where they leave it
  unchanged. Eight increments of \<^verbatim>\<open>problem_type_weights\<close> from the initial state of
  \<^verbatim>\<open>IntermediateIntegrationCurriculum\<close> end at level 7, the last index of its eight levels.
\<close>

theorem attr_level_steps_are_clamped:
  assumes "get_attribute c n = Some a" and "get_attr_level c n = Some l"
    and "0 \<le> l" and "l < int (length (levels a))"
  shows "(\<exists>c'. increment_attr_level c n = Some c'
            \<and> get_attr_level c' n = Some (if l = int (length (levels a)) - 1 then l else l + 1))
       \<and> (\<exists>c'. decrement_attr_level c n = Some c'
            \<and> get_attr_level c' n = Some (if l = 0 then l else l - 1))
       \<and> (\<exists>c8. increment_times 8 IntermediateIntegrationCurriculum ''problem_type_weights''
                   = Some c8
            \<and> get_attr_level c8 ''problem_type_weights'' = Some 7
            \<and> int (length (levels problem_type_weights_attr)) - 1 = 7)"
proof (intro conjI)
  show "\<exists>c'. increment_attr_level c n = Some c'
          \<and> get_attr_level c' n = Some (if l = int (length (levels a)) - 1 then l else l + 1)"
    using step_attr_level_result [OF assms(1,2), of 1] clamp_level_up [OF assms(3,4)]
    by (simp add: increment_attr_level_def)
next
  show "\<exists>c'. decrement_attr_level c n = Some c'
          \<and> get_attr_level c' n = Some (if l = 0 then l else l - 1)"
    using step_attr_level_result [OF assms(1,2), of "- 1"] clamp_level_down [OF assms(3,4)]
    by (simp add: decrement_attr_level_def)
next
  show "\<exists>c8. increment_times 8 IntermediateIntegrationCurriculum ''problem_type_weights''
                = Some c8
          \<and> get_attr_level c8 ''problem_type_weights'' = Some 7
          \<and> int (length (levels problem_type_weights_attr)) - 1 = 7"
    by (simp add: increment_eight_times level_of_update num_levels)
qed

theorem attr_level_steps_are_clamped_witness:
  "get_attribute IntermediateIntegrationCurriculum ''problem_type_weights''
     = Some problem_type_weights_attr
   \<and> get_attr_level IntermediateIntegrationCurriculum ''problem_type_weights'' = Some 0
   \<and> (0::int) < int (length (levels problem_type_weights_attr))
   \<and> (\<exists>c'. increment_attr_level IntermediateIntegrationCurriculum ''problem_type_weights''
              = Some c'
         \<and> get_attr_level c' ''problem_type_weights'' = Some 1)
   \<and> (\<exists>c'. decrement_attr_level IntermediateIntegrationCurriculum ''problem_type_weights''
              = Some c'
         \<and> get_attr_level c' ''problem_type_weights'' = Some 0)"
proof -
  have pos: "(0::int) < int (length (levels problem_type_weights_attr))"
    by (simp add: num_levels)
  from attr_level_steps_are_clamped [OF curriculum_attribute curriculum_initial_level _ pos]
  show ?thesis
    using curriculum_attribute curriculum_initial_level pos by (simp add: num_levels)
qed

lemma reachable_shape:
  "reachable c \<Longrightarrow>
     \<exists>l. c = IntermediateIntegrationCurriculum\<lparr>current_levels := [(''problem_type_weights'', l)]\<rparr>
         \<and> 0 \<le> l \<and> l < 8"
proof (induction rule: reachable.induct)
  case reachable_init
  show ?case using curriculum_as_update by auto
next
  case (reachable_increment c n c')
  then obtain l where c: "c = IntermediateIntegrationCurriculum
      \<lparr>current_levels := [(''problem_type_weights'', l)]\<rparr>" and l: "0 \<le> l" "l < 8"
    by blast
  have n: "n = ''problem_type_weights''"
    using reachable_increment.hyps(2) unfolding c
    by (auto simp: increment_attr_level_def step_attr_level_def get_attribute_def
        IntermediateIntegrationCurriculum_def problem_type_weights_attr_def
        split: option.splits if_splits)
  from reachable_increment.hyps(2) show ?case
    unfolding c n increment_level using l by auto
next
  case (reachable_decrement c n c')
  then obtain l where c: "c = IntermediateIntegrationCurriculum
      \<lparr>current_levels := [(''problem_type_weights'', l)]\<rparr>" and l: "0 \<le> l" "l < 8"
    by blast
  have n: "n = ''problem_type_weights''"
    using reachable_decrement.hyps(2) unfolding c
    by (auto simp: decrement_attr_level_def step_attr_level_def get_attribute_def
        IntermediateIntegrationCurriculum_def problem_type_weights_attr_def
        split: option.splits if_splits)
  from reachable_decrement.hyps(2) show ?case
    unfolding c n decrement_level using l by auto
qed

lemma levels_have_length_8:
  "list_all (\<lambda>w. length w = length default_problem_types) problem_type_weights_levels"
  by (simp add: problem_type_weights_levels_def default_problem_types_def)

lemma level_length:
  assumes "0 \<le> l" and "l < 8"
  shows "length (problem_type_weights_levels ! nat l) = 8"
proof -
  have "nat l < length problem_type_weights_levels"
    using assms by (simp add: problem_type_weights_levels_def)
  with levels_have_length_8 show ?thesis
    by (simp add: list_all_length default_problem_types_def)
qed

lemma generate_configuration_level:
  assumes "0 \<le> l" and "l < 8"
  shows "generate_configuration
           (IntermediateIntegrationCurriculum\<lparr>current_levels := [(''problem_type_weights'', l)]\<rparr>)
         = Some (default_config\<lparr>problem_type_weights := problem_type_weights_levels ! nat l\<rparr>)"
  using assms
  by (simp add: generate_configuration_def IntermediateIntegrationCurriculum_def
      problem_type_weights_attr_def set_field_def)
     (simp add: problem_type_weights_levels_def)

lemma validate_level:
  assumes "0 \<le> l" and "l < 8"
  shows "validate (default_config\<lparr>problem_type_weights := problem_type_weights_levels ! nat l\<rparr>)
           = Inr ()"
  using level_length [OF assms]
  by (simp add: validate_def default_config_def default_problem_types_def)

text \<open>
  Claim C8. In every state that increments and decrements reach from the initial state of
  \<^verbatim>\<open>IntermediateIntegrationCurriculum\<close>, the configuration materialised at the current
  levels exists and passes \<^verbatim>\<open>validate()\<close>. Every defined level of \<^verbatim>\<open>problem_type_weights\<close>
  is a list of weights as long as the default tuple of problem types.
\<close>

theorem reachable_configuration_validates:
  "(reachable c \<longrightarrow> (\<exists>cfg. generate_configuration c = Some cfg \<and> validate cfg = Inr ()))
   \<and> list_all (\<lambda>w. length w = length (problem_types default_config))
        (levels problem_type_weights_attr)"
proof (intro conjI impI)
  assume "reachable c"
  then obtain l where "c = IntermediateIntegrationCurriculum
      \<lparr>current_levels := [(''problem_type_weights'', l)]\<rparr>" "0 \<le> l" "l < 8"
    using reachable_shape by blast
  then show "\<exists>cfg. generate_configuration c = Some cfg \<and> validate cfg = Inr ()"
    by (simp add: generate_configuration_level validate_level)
next
  show "list_all (\<lambda>w. length w = length (problem_types default_config))
          (levels problem_type_weights_attr)"
    using levels_have_length_8 by (simp add: default_config_def problem_type_weights_attr_def)
qed

theorem reachable_configuration_validates_witness:
  "reachable (IntermediateIntegrationCurriculum
      \<lparr>current_levels := [(''problem_type_weights'', 1)]\<rparr>)
   \<and> (\<exists>cfg. generate_configuration (IntermediateIntegrationCurriculum
                \<lparr>current_levels := [(''problem_type_weights'', 1)]\<rparr>) = Some cfg
          \<and> problem_type_weights cfg = [0, 1, 0, 0, 0, 0, 0, 0]
          \<and> validate cfg = Inr ())"
proof -
  have step: "increment_attr_level IntermediateIntegrationCurriculum ''problem_type_weights''
      = Some (IntermediateIntegrationCurriculum
          \<lparr>current_levels := [(''problem_type_weights'', 1)]\<rparr>)"
    by (subst curriculum_as_update) (simp add: increment_level)
  have r: "reachable (IntermediateIntegrationCurriculum
      \<lparr>current_levels := [(''problem_type_weights'', 1)]\<rparr>)"
    by (rule reachable_increment [OF reachable_init step])
  have g: "generate_configuration (IntermediateIntegrationCurriculum
      \<lparr>current_levels := [(''problem_type_weights'', 1)]\<rparr>)
      = Some (default_config\<lparr>problem_type_weights := [0, 1, 0, 0, 0, 0, 0, 0]\<rparr>)"
    by (simp add: generate_configuration_level problem_type_weights_levels_def)
  from reachable_configuration_validates [of "IntermediateIntegrationCurriculum
      \<lparr>current_levels := [(''problem_type_weights'', 1)]\<rparr>"] r g
  show ?thesis by auto
qed

section \<open>The outer constant and the integrand\<close>

lemma sin_quarter_pi_nonzero: "sin (pi / 4) \<noteq> (0::real)"
  by (simp add: sin_45)

lemma cos_quarter_pi_nonzero: "cos (pi / 4) \<noteq> (0::real)"
  by (simp add: cos_45)

lemma pow_int_nonzero:
  "denote F v a \<noteq> 0 \<Longrightarrow> denote F v (Pow a (Integer n)) \<noteq> 0"
  by simp

lemma nz_I: "denote F v e \<noteq> 0 \<Longrightarrow> denotes_nonzero e"
  unfolding denotes_nonzero_def by blast

lemma nz_linear:
  assumes "k \<noteq> 0" and "b \<noteq> 0"
  shows "denotes_nonzero
     (Mul (Integer k) (Pow (Add (Mul (Integer a) (Symbol s)) (Integer b)) (Integer d)))"
  by (rule nz_I [of "\<lambda>f t. 1" "\<lambda>s. 0"]) (use assms in simp)

lemma nz_exp_linear:
  assumes "m \<noteq> 0"
  shows "denotes_nonzero (Mul (Integer m) (Exp u))"
  by (rule nz_I [of "\<lambda>f t. 1" "\<lambda>s. 0"]) (use assms in simp)

lemma nz_exp_quadratic:
  assumes "k \<noteq> 0" and "t1 \<noteq> 0"
  shows "denotes_nonzero
     (Mul (Mul (Integer k) (Add (Mul (Integer t0) (Symbol s)) (Integer t1))) (Exp u))"
  by (rule nz_I [of "\<lambda>f t. 1" "\<lambda>s. 0"]) (use assms in simp)

lemma inner_value:
  assumes "a \<noteq> 0"
  shows "denote F (\<lambda>s. (t - of_int b) / of_int a)
           (Add (Mul (Integer a) (Symbol s)) (Integer b)) = t"
  using assms by simp

lemma nz_radical:
  assumes "k \<noteq> 0" and "a \<noteq> 0"
  shows "denotes_nonzero
     (Mul (Integer k) (Mul (Integer a) (Sqrt (Add (Mul (Integer a) (Symbol s)) (Integer b)))))"
proof (rule nz_I)
  show "denote (\<lambda>f t. 1) (\<lambda>s. (1 - of_int b) / of_int a)
     (Mul (Integer k) (Mul (Integer a) (Sqrt (Add (Mul (Integer a) (Symbol s)) (Integer b))))) \<noteq> 0"
    using assms by (simp only: denote.simps(5,11) inner_value [OF assms(2)]) simp
qed

lemma nz_trig_sin:
  assumes "k \<noteq> 0" and "a \<noteq> 0"
  shows "denotes_nonzero
     (Mul (Integer k)
        (Mul (Mul (Integer a) (Cos (Add (Mul (Integer a) (Symbol s)) (Integer b))))
             (Pow (Sin (Add (Mul (Integer a) (Symbol s)) (Integer b))) (Integer p))))"
proof (rule nz_I)
  show "denote (\<lambda>f t. 1) (\<lambda>s. (pi / 4 - of_int b) / of_int a)
     (Mul (Integer k)
        (Mul (Mul (Integer a) (Cos (Add (Mul (Integer a) (Symbol s)) (Integer b))))
             (Pow (Sin (Add (Mul (Integer a) (Symbol s)) (Integer b))) (Integer p)))) \<noteq> 0"
    using assms sin_quarter_pi_nonzero cos_quarter_pi_nonzero
    by (simp only: denote.simps(5,6,9,10) inner_value [OF assms(2)]) simp
qed

lemma nz_trig_cos:
  assumes "k \<noteq> 0" and "a \<noteq> 0"
  shows "denotes_nonzero
     (Mul (Integer k)
        (Mul (Mul (Integer (- a)) (Sin (Add (Mul (Integer a) (Symbol s)) (Integer b))))
             (Pow (Cos (Add (Mul (Integer a) (Symbol s)) (Integer b))) (Integer p))))"
proof (rule nz_I)
  show "denote (\<lambda>f t. 1) (\<lambda>s. (pi / 4 - of_int b) / of_int a)
     (Mul (Integer k)
        (Mul (Mul (Integer (- a)) (Sin (Add (Mul (Integer a) (Symbol s)) (Integer b))))
             (Pow (Cos (Add (Mul (Integer a) (Symbol s)) (Integer b))) (Integer p)))) \<noteq> 0"
    using assms sin_quarter_pi_nonzero cos_quarter_pi_nonzero
    by (simp only: denote.simps(5,6,9,10) inner_value [OF assms(2)]) simp
qed

lemma nz_at_one:
  assumes "k \<noteq> 0"
    and "t = Exp (Symbol s) \<or> t = Sin (Symbol s) \<or> t = Cos (Symbol s)
         \<or> (\<exists>f c. t = AppliedUndef f (Mul (Integer c) (Symbol s)))"
  shows "denotes_nonzero (Mul (Integer k) (Mul (Pow (Symbol s) (Integer d)) t))"
  by (rule nz_I [of "\<lambda>f t. 1" "\<lambda>s. pi / 4"])
     (use assms sin_quarter_pi_nonzero cos_quarter_pi_nonzero in auto)

lemma nz_cyclic:
  assumes "k \<noteq> 0"
    and "p \<in> set [(Exp (Symbol s), Sin (Symbol s)), (Exp (Symbol s), Cos (Symbol s)),
                   (Sin (Symbol s), Cos (Symbol s))]"
  shows "denotes_nonzero (Mul (Integer k) (Mul (fst p) (snd p)))"
  by (rule nz_I [of "\<lambda>f t. 1" "\<lambda>s. pi / 4"])
     (use assms sin_quarter_pi_nonzero cos_quarter_pi_nonzero in auto)

lemma nz_log:
  assumes "k \<noteq> 0"
  shows "denotes_nonzero (Mul (Integer k) (Ln (Symbol s)))"
  by (rule nz_I [of "\<lambda>f t. 1" "\<lambda>s. 2"]) (use assms in simp)

lemma nz_log_pow:
  assumes "k \<noteq> 0" and "2 \<le> e"
  shows "denotes_nonzero (Mul (Integer k) (Ln (Pow (Symbol s) (Integer e))))"
proof (rule nz_I [of "\<lambda>f t. 1" "\<lambda>s. 2"])
  have "(1::real) < 2 ^ nat e" using assms(2) by (simp add: one_less_power)
  then have "ln ((2::real) ^ nat e) \<noteq> 0" by simp
  then show "denote (\<lambda>f t. 1) (\<lambda>s. 2) (Mul (Integer k) (Ln (Pow (Symbol s) (Integer e)))) \<noteq> 0"
    using assms by simp
qed

lemma nz_asin:
  assumes "k \<noteq> 0" and "c \<noteq> 0"
  shows "denotes_nonzero (Mul (Integer k) (Asin (Mul (Integer c) (Symbol s))))"
  by (rule nz_I [of "\<lambda>f t. 1" "\<lambda>s. 1 / of_int c"]) (use assms in simp)

lemma nz_atan:
  assumes "k \<noteq> 0" and "c \<noteq> 0"
  shows "denotes_nonzero (Mul (Integer k) (Atan (Mul (Integer c) (Symbol s))))"
  by (rule nz_I [of "\<lambda>f t. 1" "\<lambda>s. 1 / of_int c"]) (use assms in \<open>simp add: arctan_one\<close>)

lemma scaled_I: "m \<noteq> 0 \<Longrightarrow> scaled_by_nonzero (Mul (Integer m) body)"
  and scaled_I2: "m \<noteq> 0 \<Longrightarrow> scaled_by_nonzero (Mul (Mul (Integer m) d) body)"
  unfolding scaled_by_nonzero_def by blast+

lemma yields_get_outer_constant:
  assumes "0 < outer_constant_min c"
  shows "yields (\<lambda>k. k \<noteq> 0 \<and> outer_constant_min c \<le> \<bar>k\<bar> \<and> \<bar>k\<bar> \<le> outer_constant_max c)
           (get_outer_constant c)"
  unfolding get_outer_constant_def
  by (rule yields_bind [OF yields_randint], rule yields_bind [OF yields_choice],
      rule yields_return) (use assms in auto)

lemma get_outer_constant_returns:
  assumes "outer_constant_min c \<le> outer_constant_max c" and "operators c \<noteq> []"
  shows "\<exists>k r'. get_outer_constant c r = Inr (k, r')"
  using assms
  by (simp add: get_outer_constant_def bind_gen_def randint_def choice_def next_raw_def
      return_gen_def)

lemma yields_signed_coefficient:
  assumes "0 < linear_lower_bound c"
  shows "yields (\<lambda>a. a \<noteq> 0) (signed_coefficient c)"
  unfolding signed_coefficient_def
  by (rule yields_bind [OF yields_choice], rule yields_bind [OF yields_randint],
      rule yields_return) (use assms in auto)

lemma yields_signed_terms:
  assumes "0 < linear_lower_bound c"
  shows "yields (\<lambda>ts. length ts = n \<and> list_all (\<lambda>t. t \<noteq> 0) ts) (signed_terms c n)"
proof (induction n)
  case 0
  show ?case by (simp add: yields_return)
next
  case (Suc n)
  show ?case
    unfolding signed_terms.simps
    by (rule yields_bind [OF yields_signed_coefficient [OF assms]],
        rule yields_bind [OF Suc.IH], rule yields_return) simp
qed

lemma yields_linear:
  assumes "constraints_hold c"
  shows "yields well_scaled (generate_linear_substitution_problem c (Symbol s))"
proof -
  have lo: "0 < linear_lower_bound c" and oc: "0 < outer_constant_min c"
    using assms by (simp_all add: constraints_hold_def)
  show ?thesis
    unfolding generate_linear_substitution_problem_def
    apply (rule yields_bind [OF yields_randint])
    apply (rule yields_bind [OF yields_randint])
    apply (rule yields_bind [OF yields_choice])
    apply (rule yields_bind [OF yields_randint])
    apply (rule yields_bind [OF yields_get_outer_constant [OF oc]])
    apply (rule yields_return)
    using lo by (auto simp: well_scaled_def intro!: scaled_I nz_linear)
qed

lemma yields_exponential:
  assumes "constraints_hold c"
  shows "yields well_scaled (generate_exponential_substitution c (Symbol s))"
proof -
  have lo: "0 < linear_lower_bound c" and oc: "0 < outer_constant_min c"
    using assms by (simp_all add: constraints_hold_def)
  have two: "ts ! 0 \<noteq> 0 \<and> ts ! 1 \<noteq> 0"
    if "2 \<le> length ts" "list_all (\<lambda>t. t \<noteq> 0) ts" for ts :: "int list"
  proof -
    have "0 < length ts" "1 < length ts" using that(1) by linarith+
    then show ?thesis using that(2) unfolding list_all_length by blast
  qed
  show ?thesis
    unfolding generate_exponential_substitution_def
    apply (rule yields_bind [OF yields_choice])
    apply (rule yields_bind [OF yields_signed_terms [OF lo]])
    apply (rule yields_bind [OF yields_get_outer_constant [OF oc]])
    apply (rule yields_return)
    using two by (auto simp: well_scaled_def intro!: scaled_I scaled_I2 nz_exp_linear
        nz_exp_quadratic)
qed

lemma yields_radical:
  assumes "constraints_hold c"
  shows "yields well_scaled (generate_radical_substitution c (Symbol s))"
proof -
  have lo: "0 < linear_lower_bound c" and oc: "0 < outer_constant_min c"
    using assms by (simp_all add: constraints_hold_def)
  show ?thesis
    unfolding generate_radical_substitution_def
    apply (rule yields_bind [OF yields_signed_coefficient [OF lo]])
    apply (rule yields_bind [OF yields_signed_coefficient [OF lo]])
    apply (rule yields_bind [OF yields_get_outer_constant [OF oc]])
    apply (rule yields_return)
    by (auto simp: well_scaled_def intro!: scaled_I nz_radical)
qed

lemma yields_trigonometric:
  assumes "constraints_hold c"
  shows "yields well_scaled (generate_trigonometric_substitution c (Symbol s))"
proof -
  have lo: "0 < linear_lower_bound c" and oc: "0 < outer_constant_min c"
    using assms by (simp_all add: constraints_hold_def)
  show ?thesis
    unfolding generate_trigonometric_substitution_def Let_def
    apply (rule yields_bind [OF yields_choice])
    apply (rule yields_bind [OF yields_signed_coefficient [OF lo]])
    apply (rule yields_bind [OF yields_signed_coefficient [OF lo]])
    apply (rule yields_bind [OF yields_randint])
    apply (rule yields_bind [OF yields_get_outer_constant [OF oc]])
    apply (rule yields_return)
    by (auto simp: well_scaled_def intro!: scaled_I nz_trig_sin nz_trig_cos)
qed

lemma yields_polynomial_exp_trig:
  assumes "constraints_hold c"
  shows "yields well_scaled (generate_polynomial_exp_trig c (Symbol s))"
proof -
  have oc: "0 < outer_constant_min c"
    using assms by (simp add: constraints_hold_def)
  have tr: "yields (\<lambda>t. t = Exp (Symbol s) \<or> t = Sin (Symbol s) \<or> t = Cos (Symbol s)
                       \<or> (\<exists>f k. t = AppliedUndef f (Mul (Integer k) (Symbol s))))
              (if func_type = ''exp'' then return_gen (Exp (Symbol s))
               else bind_gen (randint 1 3) (\<lambda>coefficient.
                    return_gen (AppliedUndef func_type (Mul (Integer coefficient) (Symbol s)))))"
    for func_type :: string
    by (auto intro!: yields_return yields_bind [OF yields_randint])
  show ?thesis
    unfolding generate_polynomial_exp_trig_def
    apply (rule yields_bind [OF yields_randint])
    apply (rule yields_bind [OF yields_choice])
    apply (rule yields_bind [OF tr])
    apply (rule yields_bind [OF yields_get_outer_constant [OF oc]])
    apply (rule yields_return)
    by (auto simp: well_scaled_def intro!: scaled_I nz_at_one)
qed

lemma yields_log_inverse_trig:
  assumes "constraints_hold c"
  shows "yields well_scaled (generate_log_inverse_trig c (Symbol s))"
proof -
  have oc: "0 < outer_constant_min c"
    using assms by (simp add: constraints_hold_def)
  have fn: "yields (\<lambda>f. f = Ln (Symbol s)
                       \<or> (\<exists>e. 2 \<le> e \<and> f = Ln (Pow (Symbol s) (Integer e)))
                       \<or> (\<exists>k. k \<noteq> 0 \<and> f = Asin (Mul (Integer k) (Symbol s)))
                       \<or> (\<exists>k. k \<noteq> 0 \<and> f = Atan (Mul (Integer k) (Symbol s))))
              (if func_type = ''log''
               then bind_gen random_py (\<lambda>u.
                    bind_gen (if u < 8 / 10 then return_gen (Symbol s)
                              else bind_gen (randint 2 3) (\<lambda>e.
                                   return_gen (Pow (Symbol s) (Integer e))))
                      (\<lambda>log_arg.
                    return_gen (Ln log_arg)))
               else if func_type = ''asin''
                 then return_gen (Asin (Mul (Integer coefficient) (Symbol s)))
               else if func_type = ''atan''
                 then return_gen (Atan (Mul (Integer coefficient) (Symbol s)))
               else raise_gen UnboundLocalError)"
    if "1 \<le> coefficient" for func_type :: string and coefficient :: int
  proof -
    have arg: "yields (\<lambda>a. a = Symbol s \<or> (\<exists>e. 2 \<le> e \<and> a = Pow (Symbol s) (Integer e)))
                 (if u < 8 / 10 then return_gen (Symbol s)
                  else bind_gen (randint 2 3) (\<lambda>e. return_gen (Pow (Symbol s) (Integer e))))"
      for u :: rat
      by (auto intro!: yields_return yields_bind [OF yields_randint])
    have lg: "yields (\<lambda>f. f = Ln (Symbol s)
                       \<or> (\<exists>e. 2 \<le> e \<and> f = Ln (Pow (Symbol s) (Integer e)))
                       \<or> (\<exists>k. k \<noteq> 0 \<and> f = Asin (Mul (Integer k) (Symbol s)))
                       \<or> (\<exists>k. k \<noteq> 0 \<and> f = Atan (Mul (Integer k) (Symbol s))))
              (bind_gen random_py (\<lambda>u.
                    bind_gen (if u < 8 / 10 then return_gen (Symbol s)
                              else bind_gen (randint 2 3) (\<lambda>e.
                                   return_gen (Pow (Symbol s) (Integer e))))
                      (\<lambda>log_arg.
                    return_gen (Ln log_arg))))"
      apply (rule yields_bind [OF yields_random])
      apply (rule yields_bind [OF arg])
      apply (rule yields_return)
      by auto
    show ?thesis
      using that lg by (auto intro!: yields_return yields_raise)
  qed
  show ?thesis
    unfolding generate_log_inverse_trig_def
    apply (rule yields_bind [OF yields_choice])
    apply (rule yields_bind [OF yields_randint])
    apply (rule yields_bind [OF fn])
     apply simp
    apply (rule yields_bind [OF yields_get_outer_constant [OF oc]])
    apply (rule yields_return)
    by (auto simp: well_scaled_def intro!: scaled_I nz_log nz_log_pow nz_asin nz_atan)
qed

lemma yields_cyclic:
  assumes "constraints_hold c"
  shows "yields well_scaled (generate_cyclic_integral c (Symbol s))"
proof -
  have oc: "0 < outer_constant_min c"
    using assms by (simp add: constraints_hold_def)
  show ?thesis
    unfolding generate_cyclic_integral_def
    apply (rule yields_bind [OF yields_choice])
    apply (rule yields_bind [OF yields_get_outer_constant [OF oc]])
    apply (rule yields_return)
    unfolding well_scaled_def
    by (intro conjI scaled_I nz_cyclic) simp_all
qed

lemma yields_repeated_parts:
  assumes "constraints_hold c"
  shows "yields well_scaled (generate_repeated_parts c (Symbol s))"
proof -
  have oc: "0 < outer_constant_min c"
    using assms by (simp add: constraints_hold_def)
  show ?thesis
    unfolding generate_repeated_parts_def
    apply (rule yields_bind [OF yields_randint])
    apply (rule yields_bind [OF yields_choice])
    apply (rule yields_bind [OF yields_get_outer_constant [OF oc]])
    apply (rule yields_return)
    by (auto simp: well_scaled_def intro!: scaled_I nz_at_one)
qed

lemma yields_dispatch:
  assumes "constraints_hold c"
  shows "yields well_scaled (dispatch c problem_type (Symbol s))"
  unfolding dispatch_def
  using assms
  by (simp add: yields_linear yields_exponential yields_radical yields_trigonometric
      yields_polynomial_exp_trig yields_log_inverse_trig yields_cyclic yields_repeated_parts
      yields_raise)

lemma yields_draw_integrand:
  assumes "constraints_hold c"
  shows "yields (\<lambda>(problem_type, x, integrand). well_scaled integrand) (draw_integrand c)"
  unfolding draw_integrand_def
  apply (rule yields_bind [OF yields_True])
  apply (rule yields_bind [OF yields_True])
  apply (rule yields_bind [OF yields_dispatch [OF assms]])
  apply (rule yields_return)
  by simp

text \<open>
  Claim C10 does not hold of the code for every configuration that passes \<^verbatim>\<open>validate()\<close>:
  the assertion on \<^verbatim>\<open>operators\<close> accepts the empty sequence, and then
  \<^verbatim>\<open>rng.choice(operators)\<close> raises \<^verbatim>\<open>IndexError\<close>, so \<^verbatim>\<open>_get_outer_constant\<close> returns nothing.
\<close>

theorem get_outer_constant_counterexample:
  "validate (default_config\<lparr>operators := []\<rparr>) = Inr ()
   \<and> get_outer_constant (default_config\<lparr>operators := []\<rparr>) (example_rng 0) = Inl IndexError"
  by (simp add: validate_def default_config_def default_problem_types_def
      get_outer_constant_def bind_gen_def randint_def choice_def next_raw_def example_rng_def)

text \<open>
  Claim C10, amended. For every configuration that passes \<^verbatim>\<open>validate()\<close> and has at least
  one operator, and for every state of the random source, \<^verbatim>\<open>_get_outer_constant\<close> returns a
  nonzero integer whose absolute value lies between \<^verbatim>\<open>outer_constant_min\<close> and
  \<^verbatim>\<open>outer_constant_max\<close>. Every integrand that \<^verbatim>\<open>__getitem__\<close> generates under a
  configuration that passes \<^verbatim>\<open>validate()\<close> is a product with a nonzero integer as its
  leading factor, and it does not denote the zero function.
\<close>

theorem get_outer_constant_nonzero:
  "(validate c = Inr () \<and> operators c \<noteq> [] \<longrightarrow>
      (\<exists>k r'. get_outer_constant c r = Inr (k, r') \<and> k \<noteq> 0
          \<and> outer_constant_min c \<le> \<bar>k\<bar> \<and> \<bar>k\<bar> \<le> outer_constant_max c))
   \<and> (validate c = Inr () \<and> draw_integrand c r = Inr ((problem_type, x, integrand), r') \<longrightarrow>
      scaled_by_nonzero integrand \<and> denotes_nonzero integrand)"
proof (rule conjI; rule impI)
  assume a: "validate c = Inr () \<and> operators c \<noteq> []"
  then have ch: "constraints_hold c" by (simp add: validate_ok_iff)
  then have b: "0 < outer_constant_min c" "outer_constant_min c \<le> outer_constant_max c"
    by (simp_all add: constraints_hold_def)
  obtain k r' where k: "get_outer_constant c r = Inr (k, r')"
    using get_outer_constant_returns [OF b(2)] a by blast
  with yields_get_outer_constant [OF b(1)]
  have "k \<noteq> 0 \<and> outer_constant_min c \<le> \<bar>k\<bar> \<and> \<bar>k\<bar> \<le> outer_constant_max c"
    unfolding yields_def by blast
  with k show "\<exists>k r'. get_outer_constant c r = Inr (k, r') \<and> k \<noteq> 0
      \<and> outer_constant_min c \<le> \<bar>k\<bar> \<and> \<bar>k\<bar> \<le> outer_constant_max c"
    by blast
next
  assume a: "validate c = Inr () \<and> draw_integrand c r = Inr ((problem_type, x, integrand), r')"
  then have "constraints_hold c" by (simp add: validate_ok_iff)
  from yields_draw_integrand [OF this] a
  have "well_scaled integrand" unfolding yields_def by fastforce
  then show "scaled_by_nonzero integrand \<and> denotes_nonzero integrand"
    by (simp add: well_scaled_def)
qed

theorem get_outer_constant_nonzero_witness:
  "validate example_config = Inr ()
   \<and> operators example_config \<noteq> []
   \<and> draw_integrand example_config (example_rng 45)
       = Inr ((''radical'', Symbol ''x'', example_integrand), Rng (raw (example_rng 45)) 8)
   \<and> (\<exists>k r'. get_outer_constant example_config (example_rng 45) = Inr (k, r') \<and> k \<noteq> 0
         \<and> 1 \<le> \<bar>k\<bar> \<and> \<bar>k\<bar> \<le> 3)
   \<and> scaled_by_nonzero example_integrand
   \<and> denotes_nonzero example_integrand"
proof -
  have v: "validate example_config = Inr ()"
    by (simp add: validate_def example_config_def default_config_def default_problem_types_def)
  have ops: "operators example_config \<noteq> []"
    by (simp add: example_config_def default_config_def)
  have bounds: "outer_constant_min example_config = 1" "outer_constant_max example_config = 3"
    by (simp_all add: example_config_def default_config_def)
  from get_outer_constant_nonzero [of example_config "example_rng 45" "''radical''"
      "Symbol ''x''" example_integrand "Rng (raw (example_rng 45)) 8"] v ops example_draw
  show ?thesis unfolding bounds by blast
qed


section \<open>Further properties of the code\<close>

text \<open>
  Property X1. \<^verbatim>\<open>_generate_repeated_parts\<close> draws the degree with
  \<^verbatim>\<open>rng.randint(3, max_poly_degree)\<close>: for a configuration with \<^verbatim>\<open>max_poly_degree\<close> below 3
  the range is empty and the call raises \<^verbatim>\<open>ValueError\<close>. \<^verbatim>\<open>validate()\<close> accepts such a
  configuration, for example the default one with \<^verbatim>\<open>max_poly_degree=2\<close>.
\<close>

theorem repeated_parts_needs_degree_three:
  "(max_poly_degree c < 3 \<longrightarrow> generate_repeated_parts c x r = Inl ValueError)
   \<and> validate (default_config\<lparr>max_poly_degree := 2\<rparr>) = Inr ()"
  by (simp add: generate_repeated_parts_def bind_gen_def randint_def validate_def
      default_config_def default_problem_types_def)

theorem repeated_parts_needs_degree_three_witness:
  "max_poly_degree (default_config\<lparr>max_poly_degree := 2\<rparr>) < 3
   \<and> generate_repeated_parts (default_config\<lparr>max_poly_degree := 2\<rparr>) (Symbol ''x'')
        (example_rng 0) = Inl ValueError"
proof -
  have h: "max_poly_degree (default_config\<lparr>max_poly_degree := 2\<rparr>) < 3" by simp
  with repeated_parts_needs_degree_three
    [of "default_config\<lparr>max_poly_degree := 2\<rparr>" "Symbol ''x''" "example_rng 0"]
  show ?thesis by blast
qed

text \<open>
  Property X2. Every result that \<^verbatim>\<open>__getitem__\<close> returns is an item record: a dictionary
  with the keys \<^verbatim>\<open>question\<close>, \<^verbatim>\<open>answer\<close> and \<^verbatim>\<open>metadata\<close>, whose metadata holds the texts
  of the integrand and of the variable that \<^verbatim>\<open>score_answer\<close> reads.
\<close>

theorem getitem_returns_item_record:
  assumes "getitem mk_rng sp self index = Inr item"
  shows "is_item_record item
         \<and> (\<exists>md t v. subscript item ''metadata'' = Inr md
               \<and> subscript md ''integrand'' = Inr (PStr t)
               \<and> subscript md ''variable'' = Inr (PStr v))"
  using assms
  by (auto simp: getitem_def getitem_body_def bind_gen_def return_gen_def lift_lib_def
      is_item_record_def subscript_def split: sum.splits prod.splits)

theorem getitem_returns_item_record_witness:
  "getitem example_rng (example_sympy example_table) example_dataset 3 = Inr example_item
   \<and> is_item_record example_item
   \<and> subscript example_metadata ''integrand'' = Inr (PStr ''-2*10*sqrt(10*x + 4)'')"
  using getitem_returns_item_record [OF example_getitem] example_getitem example_subscripts(3)
  by blast

text \<open>
  Property X3. The read of \<^verbatim>\<open>entry["metadata"]\<close> stands before the \<^verbatim>\<open>try\<close> block of
  \<^verbatim>\<open>score_answer\<close>: for a dictionary without that key the call raises \<^verbatim>\<open>KeyError\<close>, whatever
  the answer is.
\<close>

theorem score_answer_without_metadata:
  "score_answer sp answer (PDict [(''question'', q), (''answer'', a)])
     = Inl (KeyError ''metadata'')"
  by (simp add: score_answer_def subscript_def)

end
